theory Spec2Isabelle
  imports Complex_Main "HOL-Library.Multiset" "HOL-Library.Log_Nat"
begin

section \<open>float64\<close>

text \<open>
  A Go \<open>float64\<close> is a finite value, an infinity or a NaN. A finite value is kept as the
  rational number it denotes; the sign of zero is dropped, since the code only compares,
  multiplies and divides, and never divides by a zero (see \<open>GetLevelPercentage\<close>).
  Multiplication and division round the exact result to the nearest binary64 value, ties
  to even, with gradual underflow and overflow to infinity, as the hardware does; so
  \<open>70 / 1000 * 100\<close> is \<open>7.000000000000001\<close>, not 7. The type admits every rational as a
  finite value; the fields of a decoded tank or measurement hold binary64 values, and
  every result of \<open>fmul\<close> and \<open>fdiv\<close> is one.
\<close>

datatype float64 = Finite rat | PInf | NInf | NaN

definition pow2 :: "int \<Rightarrow> rat" where
  "pow2 k = (if 0 \<le> k then 2 ^ nat k else 1 / 2 ^ nat (- k))"

definition round_half_even :: "rat \<Rightarrow> int" where
  "round_half_even x =
     (let f = \<lfloor>x\<rfloor>; d = x - of_int f
      in if d < 1 / 2 then f else if 1 / 2 < d then f + 1
         else if even f then f else f + 1)"

text \<open>For a positive \<open>a\<close>, the exponent of the unit in the last place of a 53 bit
  significand: \<open>\<lfloor>log\<^sub>2 a\<rfloor> - 52\<close>, and not below that of the subnormal numbers.\<close>

definition exponent64 :: "rat \<Rightarrow> int" where
  "exponent64 a =
     (let (p, q) = quotient_of a;
          k = bitlen p - bitlen q;
          e = (if a < pow2 k then k - 1 else k) - 52
      in max e (- 1074))"

definition round64 :: "rat \<Rightarrow> float64" where
  "round64 x =
     (if x = 0 then Finite 0
      else let a = \<bar>x\<bar>;
               e = exponent64 a;
               v = of_int (round_half_even (a / pow2 e)) * pow2 e
           in if pow2 1024 \<le> v then (if 0 < x then PInf else NInf)
              else Finite (if 0 < x then v else - v))"

definition fmul :: "float64 \<Rightarrow> float64 \<Rightarrow> float64" where
  "fmul x y =
     (case (x, y) of
        (NaN, _) \<Rightarrow> NaN
      | (_, NaN) \<Rightarrow> NaN
      | (Finite a, Finite b) \<Rightarrow> round64 (a * b)
      | (Finite a, PInf) \<Rightarrow> (if a = 0 then NaN else if 0 < a then PInf else NInf)
      | (Finite a, NInf) \<Rightarrow> (if a = 0 then NaN else if 0 < a then NInf else PInf)
      | (PInf, Finite b) \<Rightarrow> (if b = 0 then NaN else if 0 < b then PInf else NInf)
      | (NInf, Finite b) \<Rightarrow> (if b = 0 then NaN else if 0 < b then NInf else PInf)
      | (PInf, PInf) \<Rightarrow> PInf
      | (PInf, NInf) \<Rightarrow> NInf
      | (NInf, PInf) \<Rightarrow> NInf
      | (NInf, NInf) \<Rightarrow> PInf)"

definition fdiv :: "float64 \<Rightarrow> float64 \<Rightarrow> float64" where
  "fdiv x y =
     (case (x, y) of
        (NaN, _) \<Rightarrow> NaN
      | (_, NaN) \<Rightarrow> NaN
      | (Finite a, Finite b) \<Rightarrow>
          (if b = 0 then (if a = 0 then NaN else if 0 < a then PInf else NInf)
           else round64 (a / b))
      | (Finite a, PInf) \<Rightarrow> Finite 0
      | (Finite a, NInf) \<Rightarrow> Finite 0
      | (PInf, Finite b) \<Rightarrow> (if 0 \<le> b then PInf else NInf)
      | (NInf, Finite b) \<Rightarrow> (if 0 \<le> b then NInf else PInf)
      | (PInf, PInf) \<Rightarrow> NaN
      | (PInf, NInf) \<Rightarrow> NaN
      | (NInf, PInf) \<Rightarrow> NaN
      | (NInf, NInf) \<Rightarrow> NaN)"

text \<open>The comparisons \<open><=\<close> and \<open><\<close>: false as soon as one side is a NaN.\<close>

fun fle :: "float64 \<Rightarrow> float64 \<Rightarrow> bool" where
  "fle NaN _ = False"
| "fle _ NaN = False"
| "fle (Finite a) (Finite b) = (a \<le> b)"
| "fle NInf _ = True"
| "fle _ PInf = True"
| "fle PInf _ = False"
| "fle _ NInf = False"

fun flt :: "float64 \<Rightarrow> float64 \<Rightarrow> bool" where
  "flt NaN _ = False"
| "flt _ NaN = False"
| "flt (Finite a) (Finite b) = (a < b)"
| "flt PInf _ = False"
| "flt _ NInf = False"
| "flt NInf _ = True"
| "flt _ PInf = True"

section \<open>Domain entities (package domain)\<close>

text \<open>
  A \<open>time.Time\<close> is an instant, counted in nanoseconds from Go's zero time, so that
  \<open>IsZero\<close> is equality with 0 and \<open>After\<close> is the strict order; the monotonic clock
  reading a \<open>time.Time\<close> may carry is not modelled.
\<close>

type_synonym time = int

definition IsZero :: "time \<Rightarrow> bool" where
  "IsZero t = (t = 0)"

definition After :: "time \<Rightarrow> time \<Rightarrow> bool" where
  "After t u = (u < t)"

record Tank =
  ID :: string
  Name :: string
  Capacity :: float64
  CurrentLevel :: float64
  LiquidType :: string
  Temperature :: float64
  LastUpdated :: time
  Status :: string
  AlertThreshold :: float64

text \<open>The fields \<open>ID\<close> and \<open>Temperature\<close> of the Go struct \<open>Measurement\<close> are prefixed here,
  since a record cannot reuse the field names of \<open>Tank\<close>.\<close>

record Measurement =
  MeasurementID :: string
  TankID :: string
  Level :: float64
  Timestamp :: time
  MeasurementTemperature :: float64

text \<open>
  \<open>GetLevelPercentage_div\<close> is the body of \<open>GetLevelPercentage\<close> with the division it
  calls as an argument, so that one can say for which divisors the division is used;
  \<open>GetLevelPercentage\<close> is that body with the division of \<open>float64\<close>.
\<close>

definition GetLevelPercentage_div :: "(float64 \<Rightarrow> float64 \<Rightarrow> float64) \<Rightarrow> Tank \<Rightarrow> float64" where
  "GetLevelPercentage_div d t =
     (if fle (Capacity t) (Finite 0) then Finite 0
      else fmul (d (CurrentLevel t) (Capacity t)) (Finite 100))"

definition GetLevelPercentage :: "Tank \<Rightarrow> float64" where
  "GetLevelPercentage t = GetLevelPercentage_div fdiv t"

definition IsLevelCritical :: "Tank \<Rightarrow> bool" where
  "IsLevelCritical t = fle (GetLevelPercentage t) (AlertThreshold t)"

definition UpdateStatus :: "Tank \<Rightarrow> Tank" where
  "UpdateStatus t =
     (let percentage = GetLevelPercentage t in
      if fle percentage (AlertThreshold t) then t\<lparr>Status := ''critical''\<rparr>
      else if fle percentage (fmul (AlertThreshold t) (Finite 2))
           then t\<lparr>Status := ''warning''\<rparr>
      else t\<lparr>Status := ''normal''\<rparr>)"

section \<open>Errors\<close>

text \<open>
  One constructor for each error value the code can produce. The services package and the
  repositories package each declare their own \<open>ErrTankNotFound\<close> (both with the message
  "tank not found"); the errors made in place with \<open>errors.New\<close> are named after their
  message; \<open>NotifierError\<close> is whatever an alert notifier returns.
\<close>

datatype error =
    ErrInvalidTank
  | ErrTankNotFound
  | RepoErrTankNotFound
  | ErrInvalidMeasurementData
  | ErrTankNil
  | ErrMeasurementNil
  | ErrTankIDEmpty
  | NotifierError string

fun Error :: "error \<Rightarrow> string" where
  "Error ErrInvalidTank = ''invalid tank data''"
| "Error ErrTankNotFound = ''tank not found''"
| "Error RepoErrTankNotFound = ''tank not found''"
| "Error ErrInvalidMeasurementData = ''invalid measurement data''"
| "Error ErrTankNil = ''tank cannot be nil''"
| "Error ErrMeasurementNil = ''measurement cannot be nil''"
| "Error ErrTankIDEmpty = ''tank ID cannot be empty''"
| "Error (NotifierError s) = s"

text \<open>The kinds of the specification's error taxonomy, read off the error values.\<close>

definition NotFound :: "error \<Rightarrow> bool" where
  "NotFound e = (e = ErrTankNotFound \<or> e = RepoErrTankNotFound)"

definition InvalidTank :: "error \<Rightarrow> bool" where
  "InvalidTank e = (e = ErrInvalidTank)"

definition InvalidInput :: "error \<Rightarrow> bool" where
  "InvalidInput e = (e = ErrInvalidTank \<or> e = ErrInvalidMeasurementData)"

section \<open>MemoryTankRepository\<close>

text \<open>
  The repository is its map from tank ID to the stored copy; the mutex is not modelled.
  A pointer result that may be nil is an \<open>option\<close>; a Go pair (value, error) is a sum
  with the error on the left. Every reading of \<open>time.Now()\<close> during one operation is the
  parameter \<open>now\<close>.
\<close>

type_synonym MemoryTankRepository = "string \<rightharpoonup> Tank"

definition NewMemoryTankRepository :: MemoryTankRepository where
  "NewMemoryTankRepository = Map.empty"

definition repo_GetTank :: "MemoryTankRepository \<Rightarrow> string \<Rightarrow> error + Tank option" where
  "repo_GetTank r id' =
     (case r id' of None \<Rightarrow> Inl RepoErrTankNotFound | Some tank \<Rightarrow> Inr (Some tank))"

definition repo_SaveTank ::
  "time \<Rightarrow> Tank option \<Rightarrow> MemoryTankRepository \<Rightarrow> error + MemoryTankRepository" where
  "repo_SaveTank now tank r =
     (case tank of
        None \<Rightarrow> Inl ErrTankNil
      | Some t \<Rightarrow>
          let t1 = (if IsZero (LastUpdated t) then t\<lparr>LastUpdated := now\<rparr> else t)
          in Inr (r(ID t1 \<mapsto> t1)))"

definition repo_UpdateTank ::
  "time \<Rightarrow> Tank option \<Rightarrow> MemoryTankRepository \<Rightarrow> error + MemoryTankRepository" where
  "repo_UpdateTank now tank r =
     (case tank of
        None \<Rightarrow> Inl ErrTankNil
      | Some t \<Rightarrow>
          (case r (ID t) of
             None \<Rightarrow> Inl RepoErrTankNotFound
           | Some _ \<Rightarrow>
               let t1 = (if IsZero (LastUpdated t) then t\<lparr>LastUpdated := now\<rparr> else t)
               in Inr (r(ID t1 \<mapsto> t1))))"

definition repo_DeleteTank :: "string \<Rightarrow> MemoryTankRepository \<Rightarrow> error + MemoryTankRepository" where
  "repo_DeleteTank id' r =
     (case r id' of None \<Rightarrow> Inl RepoErrTankNotFound | Some _ \<Rightarrow> Inr (r(id' := None)))"

section \<open>MemoryMeasurementRepository\<close>

text \<open>
  \<open>sort.Slice\<close> belongs to Go's library, not to this repository, and what it does on a
  slice of more than 12 elements is an unstable sort whose order of equal elements is not
  documented. \<open>SaveMeasurement\<close> therefore takes the sorting function as its first
  argument, and the statements below ask of it what the library promises: the result is
  a permutation of the slice, ordered by the comparison (\<open>sort_Slice_contract\<close>).
  \<open>insertionSortLessFunc\<close> is the sort the library runs on a slice of at most 12
  elements: each element in turn moves towards the front for as long as the comparison
  holds between it and its left neighbour. Its sorted prefix is kept reversed, its last
  element first.
\<close>

type_synonym sort_Slice_type =
  "(Measurement \<Rightarrow> Measurement \<Rightarrow> bool) \<Rightarrow> Measurement list \<Rightarrow> Measurement list"

fun bubble :: "('a \<Rightarrow> 'a \<Rightarrow> bool) \<Rightarrow> 'a \<Rightarrow> 'a list \<Rightarrow> 'a list" where
  "bubble lessf x [] = [x]"
| "bubble lessf x (y # rp) = (if lessf x y then y # bubble lessf x rp else x # y # rp)"

fun insertionSort :: "('a \<Rightarrow> 'a \<Rightarrow> bool) \<Rightarrow> 'a list \<Rightarrow> 'a list \<Rightarrow> 'a list" where
  "insertionSort lessf rp [] = rev rp"
| "insertionSort lessf rp (x # xs) = insertionSort lessf (bubble lessf x rp) xs"

definition insertionSortLessFunc :: "('a \<Rightarrow> 'a \<Rightarrow> bool) \<Rightarrow> 'a list \<Rightarrow> 'a list" where
  "insertionSortLessFunc lessf xs = insertionSort lessf [] xs"

text \<open>The comparison \<open>SaveMeasurement\<close> sorts by: the first measurement is the later one.\<close>

definition later :: "Measurement \<Rightarrow> Measurement \<Rightarrow> bool" where
  "later a b = After (Timestamp a) (Timestamp b)"

type_synonym MemoryMeasurementRepository = "string \<rightharpoonup> Measurement list"

definition NewMemoryMeasurementRepository :: MemoryMeasurementRepository where
  "NewMemoryMeasurementRepository = Map.empty"

text \<open>\<open>SaveMeasurement\<close> writes the time stamp into the caller's measurement; the result
  carries that measurement back together with the new repository.\<close>

definition SaveMeasurement ::
  "sort_Slice_type \<Rightarrow> time \<Rightarrow> Measurement option \<Rightarrow> MemoryMeasurementRepository
     \<Rightarrow> error + (Measurement \<times> MemoryMeasurementRepository)" where
  "SaveMeasurement sort_Slice now measurement r =
     (case measurement of
        None \<Rightarrow> Inl ErrMeasurementNil
      | Some m \<Rightarrow>
          let m1 = (if IsZero (Timestamp m) then m\<lparr>Timestamp := now\<rparr> else m);
              old = (case r (TankID m1) of None \<Rightarrow> [] | Some ms \<Rightarrow> ms);
              appended = old @ [m1]
          in Inr (m1, r(TankID m1 \<mapsto> sort_Slice later appended)))"

definition GetMeasurementsByTankID ::
  "MemoryMeasurementRepository \<Rightarrow> string \<Rightarrow> int \<Rightarrow> error + Measurement list" where
  "GetMeasurementsByTankID r tankID limit =
     (if tankID = [] then Inl ErrTankIDEmpty
      else case r tankID of
             None \<Rightarrow> Inr []
           | Some measurements \<Rightarrow>
               if 0 < limit \<and> limit < int (length measurements)
               then Inr (take (nat limit) measurements)
               else Inr measurements)"

definition GetLastMeasurement ::
  "MemoryMeasurementRepository \<Rightarrow> string \<Rightarrow> error + Measurement option" where
  "GetLastMeasurement r tankID =
     (if tankID = [] then Inl ErrTankIDEmpty
      else case r tankID of
             None \<Rightarrow> Inr None
           | Some [] \<Rightarrow> Inr None
           | Some (m # _) \<Rightarrow> Inr (Some m))"

section \<open>TankServiceImpl\<close>

text \<open>
  The service works on the two in-memory repositories and an alert notifier. The world it
  acts on holds both maps and the list of alerts the notifier has received, oldest first.
  The notifier's answer (\<open>None\<close> for nil) may depend on the alerts it has already received.
  \<open>Sprintf_2f\<close> stands for Go's \<open>fmt.Sprintf("%.2f%%", _)\<close>, and \<open>sort_Slice\<close> for the
  library's \<open>sort.Slice\<close>, which the measurement repository calls.
\<close>

record World =
  tanks :: MemoryTankRepository
  measurements :: MemoryMeasurementRepository
  alerts :: "(string \<times> string) list"

record Env =
  SendAlert :: "(string \<times> string) list \<Rightarrow> string \<Rightarrow> string \<Rightarrow> error option"
  Sprintf_2f :: "float64 \<Rightarrow> string"
  sort_Slice :: sort_Slice_type

definition NewWorld :: World where
  "NewWorld = \<lparr>tanks = NewMemoryTankRepository,
               measurements = NewMemoryMeasurementRepository,
               alerts = []\<rparr>"

text \<open>\<open>GetTank\<close> and \<open>AddMeasurement\<close> both copy level, temperature and time stamp of a
  measurement into the tank and call \<open>UpdateStatus\<close>; \<open>project\<close> is that block.\<close>

definition project :: "Tank \<Rightarrow> Measurement \<Rightarrow> Tank" where
  "project tank m =
     UpdateStatus (tank\<lparr>CurrentLevel := Level m,
                        Temperature := MeasurementTemperature m,
                        LastUpdated := Timestamp m\<rparr>)"

definition GetTank :: "World \<Rightarrow> string \<Rightarrow> error + Tank" where
  "GetTank w id' =
     (if id' = [] then Inl ErrInvalidTank
      else case repo_GetTank (tanks w) id' of
             Inl err \<Rightarrow> Inl err
           | Inr None \<Rightarrow> Inl ErrTankNotFound
           | Inr (Some tank) \<Rightarrow>
               (case GetLastMeasurement (measurements w) id' of
                  Inr (Some lastMeasurement) \<Rightarrow> Inr (project tank lastMeasurement)
                | _ \<Rightarrow> Inr tank))"

definition CreateTank :: "time \<Rightarrow> Tank option \<Rightarrow> World \<Rightarrow> error option \<times> World" where
  "CreateTank now tank w =
     (case tank of
        None \<Rightarrow> (Some ErrInvalidTank, w)
      | Some t \<Rightarrow>
          if Name t = [] \<or> fle (Capacity t) (Finite 0) then (Some ErrInvalidTank, w)
          else
            let t1 = t\<lparr>Status := ''normal''\<rparr>;
                t2 = (if fle (AlertThreshold t1) (Finite 0)
                      then t1\<lparr>AlertThreshold := Finite 10\<rparr> else t1);
                t3 = t2\<lparr>LastUpdated := now\<rparr>
            in (case repo_SaveTank now (Some t3) (tanks w) of
                  Inl err \<Rightarrow> (Some err, w)
                | Inr r \<Rightarrow> (None, w\<lparr>tanks := r\<rparr>)))"

definition UpdateTank :: "time \<Rightarrow> Tank option \<Rightarrow> World \<Rightarrow> error option \<times> World" where
  "UpdateTank now tank w =
     (case tank of
        None \<Rightarrow> (Some ErrInvalidTank, w)
      | Some t \<Rightarrow>
          if ID t = [] then (Some ErrInvalidTank, w)
          else (case repo_GetTank (tanks w) (ID t) of
                  Inl err \<Rightarrow> (Some err, w)
                | Inr None \<Rightarrow> (Some ErrTankNotFound, w)
                | Inr (Some _) \<Rightarrow>
                    (let t1 = (UpdateStatus t)\<lparr>LastUpdated := now\<rparr>
                     in (case repo_UpdateTank now (Some t1) (tanks w) of
                           Inl err \<Rightarrow> (Some err, w)
                         | Inr r \<Rightarrow> (None, w\<lparr>tanks := r\<rparr>)))))"

definition DeleteTank :: "string \<Rightarrow> World \<Rightarrow> error option \<times> World" where
  "DeleteTank id' w =
     (if id' = [] then (Some ErrInvalidTank, w)
      else case repo_GetTank (tanks w) id' of
             Inl err \<Rightarrow> (Some err, w)
           | Inr None \<Rightarrow> (Some ErrTankNotFound, w)
           | Inr (Some _) \<Rightarrow>
               (case repo_DeleteTank id' (tanks w) of
                  Inl err \<Rightarrow> (Some err, w)
                | Inr r \<Rightarrow> (None, w\<lparr>tanks := r\<rparr>)))"

definition alert_message :: "Env \<Rightarrow> Tank \<Rightarrow> string" where
  "alert_message env tank =
     [CHR 0xC2, CHR 0xA1] @ ''Alerta! El tanque '' @ Name tank @
     '' est'' @ [CHR 0xC3, CHR 0xA1] @ '' en nivel cr'' @ [CHR 0xC3, CHR 0xAD] @ ''tico ('' @
     ''nivel: '' @ Sprintf_2f env (GetLevelPercentage tank) @ ''). '' @
     ''Se requiere atenci'' @ [CHR 0xC3, CHR 0xB3] @ ''n inmediata.''"

definition MonitorTank :: "Env \<Rightarrow> World \<Rightarrow> string \<Rightarrow> error option \<times> World" where
  "MonitorTank env w tankID =
     (case GetTank w tankID of
        Inl err \<Rightarrow> (Some err, w)
      | Inr tank \<Rightarrow>
          if IsLevelCritical tank
          then (let message = alert_message env tank
                in (SendAlert env (alerts w) tankID message,
                    w\<lparr>alerts := alerts w @ [(tankID, message)]\<rparr>))
          else (None, w))"

definition AddMeasurement ::
  "Env \<Rightarrow> time \<Rightarrow> Measurement option \<Rightarrow> World \<Rightarrow> error option \<times> World" where
  "AddMeasurement env now measurement w =
     (case measurement of
        None \<Rightarrow> (Some ErrInvalidMeasurementData, w)
      | Some m \<Rightarrow>
          if TankID m = [] \<or> flt (Level m) (Finite 0) then (Some ErrInvalidMeasurementData, w)
          else (case repo_GetTank (tanks w) (TankID m) of
                  Inl err \<Rightarrow> (Some err, w)
                | Inr None \<Rightarrow> (Some ErrTankNotFound, w)
                | Inr (Some tank) \<Rightarrow>
                    (let m1 = (if IsZero (Timestamp m) then m\<lparr>Timestamp := now\<rparr> else m)
                     in (case SaveMeasurement (sort_Slice env) now (Some m1) (measurements w) of
                           Inl err \<Rightarrow> (Some err, w)
                         | Inr (m2, mr) \<Rightarrow>
                             (let w1 = w\<lparr>measurements := mr\<rparr>;
                                  tank1 = project tank m2
                              in (case repo_UpdateTank now (Some tank1) (tanks w1) of
                                    Inl err \<Rightarrow> (Some err, w1)
                                  | Inr tr \<Rightarrow>
                                      MonitorTank env (w1\<lparr>tanks := tr\<rparr>) (TankID m2)))))))"

definition GetTankStatus :: "World \<Rightarrow> string \<Rightarrow> error + string" where
  "GetTankStatus w tankID =
     (case GetTank w tankID of Inl err \<Rightarrow> Inl err | Inr tank \<Rightarrow> Inr (Status tank))"

section \<open>Vocabulary of the statements\<close>

text \<open>A history is most-recent-first when no measurement is older than one after it.\<close>

definition most_recent_first :: "Measurement list \<Rightarrow> bool" where
  "most_recent_first ms = sorted_wrt (\<lambda>a b. Timestamp b \<le> Timestamp a) ms"

text \<open>The reversed prefix of the insertion sort runs the other way.\<close>

definition oldest_first :: "Measurement list \<Rightarrow> bool" where
  "oldest_first rp = sorted_wrt (\<lambda>a b. Timestamp a \<le> Timestamp b) rp"

text \<open>What Go's library documents of \<open>sort.Slice\<close>, for the comparison \<open>later\<close>: the
  result holds the elements of the slice, and none of them is later than one before it.\<close>

definition sort_Slice_contract :: "sort_Slice_type \<Rightarrow> bool" where
  "sort_Slice_contract srt =
     (\<forall>xs. mset (srt later xs) = mset xs \<and> most_recent_first (srt later xs))"

text \<open>The three-tier rule in the specification's words: critical iff the fill percentage is
  at most the threshold, warning iff it lies above the threshold and at most at twice the
  threshold, normal otherwise.\<close>

definition three_tier :: "Tank \<Rightarrow> bool" where
  "three_tier t =
     ((Status t = ''critical'') = fle (GetLevelPercentage t) (AlertThreshold t)
      \<and> (Status t = ''warning'') =
          (flt (AlertThreshold t) (GetLevelPercentage t)
           \<and> fle (GetLevelPercentage t) (fmul (AlertThreshold t) (Finite 2)))
      \<and> (Status t = ''normal'') =
          (\<not> fle (GetLevelPercentage t) (AlertThreshold t)
           \<and> \<not> (flt (AlertThreshold t) (GetLevelPercentage t)
                \<and> fle (GetLevelPercentage t) (fmul (AlertThreshold t) (Finite 2)))))"

text \<open>The measurement as \<open>AddMeasurement\<close> stores it, the history kept for a tank ID, and
  the world once \<open>AddMeasurement\<close> has done its two writes (the measurement appended and
  the history sorted again, the tank's snapshot replaced), before it calls \<open>MonitorTank\<close>.\<close>

definition stamped :: "time \<Rightarrow> Measurement \<Rightarrow> Measurement" where
  "stamped now m = (if IsZero (Timestamp m) then m\<lparr>Timestamp := now\<rparr> else m)"

definition history :: "MemoryMeasurementRepository \<Rightarrow> string \<Rightarrow> Measurement list" where
  "history r tankID = (case r tankID of None \<Rightarrow> [] | Some ms \<Rightarrow> ms)"

definition after_writes :: "Env \<Rightarrow> time \<Rightarrow> Measurement \<Rightarrow> Tank \<Rightarrow> World \<Rightarrow> World" where
  "after_writes env now m tank w =
     w\<lparr>measurements := (measurements w)(TankID m \<mapsto>
          sort_Slice env later (history (measurements w) (TankID m) @ [stamped now m])),
       tanks := (tanks w)(TankID m \<mapsto> project tank (stamped now m))\<rparr>"

text \<open>Every tank is stored under its own ID, as \<open>SaveTank\<close> and \<open>UpdateTank\<close> store it.\<close>

definition keys_consistent :: "World \<Rightarrow> bool" where
  "keys_consistent w = (\<forall>k t. tanks w k = Some t \<longrightarrow> ID t = k)"

text \<open>Running a sequence of \<open>SaveMeasurement\<close> calls, each with its own clock reading and
  its (possibly nil) argument; a failed call leaves the repository as it was.\<close>

fun save_all ::
  "sort_Slice_type \<Rightarrow> (time \<times> Measurement option) list \<Rightarrow> MemoryMeasurementRepository
     \<Rightarrow> MemoryMeasurementRepository" where
  "save_all srt [] r = r"
| "save_all srt ((now, m) # calls) r =
     (case SaveMeasurement srt now m r of
        Inl _ \<Rightarrow> save_all srt calls r
      | Inr (_, r') \<Rightarrow> save_all srt calls r')"

text \<open>The measurements such a sequence of calls hands over for one tank ID, each with the
  time stamp it is stored with, in the order of the calls.\<close>

fun saved_for :: "string \<Rightarrow> (time \<times> Measurement option) list \<Rightarrow> Measurement list" where
  "saved_for tankID [] = []"
| "saved_for tankID ((now, None) # calls) = saved_for tankID calls"
| "saved_for tankID ((now, Some m) # calls) =
     (if TankID m = tankID then stamped now m # saved_for tankID calls
      else saved_for tankID calls)"

section \<open>Scenarios\<close>

text \<open>The tank of the service tests (\<open>createTestTank\<close>) with a chosen ID, level and
  threshold, and a measurement as \<open>createTestMeasurement\<close> builds it, with a chosen time
  stamp.\<close>

definition test_tank :: "string \<Rightarrow> rat \<Rightarrow> rat \<Rightarrow> Tank" where
  "test_tank id' level threshold =
     \<lparr>ID = id', Name = ''Tanque de Prueba'', Capacity = Finite 1000,
      CurrentLevel = Finite level, LiquidType = ''Agua'', Temperature = Finite 25,
      LastUpdated = 1, Status = ''normal'', AlertThreshold = Finite threshold\<rparr>"

definition test_measurement :: "string \<Rightarrow> rat \<Rightarrow> time \<Rightarrow> Measurement" where
  "test_measurement tankID level ts =
     \<lparr>MeasurementID = ''m'', TankID = tankID, Level = Finite level, Timestamp = ts,
      MeasurementTemperature = Finite 25\<rparr>"

text \<open>Two environments: the notifier of \<open>cmd/api\<close>, which logs the alert and returns nil,
  and a notifier that refuses every alert. The formatter is fixed to the text of the one
  percentage the scenarios below alert on; the sort is the insertion sort, which is what
  \<open>sort.Slice\<close> runs on the short histories of the scenarios.\<close>

definition env_ok :: Env where
  "env_ok = \<lparr>SendAlert = (\<lambda>_ _ _. None), Sprintf_2f = (\<lambda>_. ''5.00%''),
             sort_Slice = insertionSortLessFunc\<rparr>"

definition env_down :: Env where
  "env_down = \<lparr>SendAlert = (\<lambda>_ _ _. Some (NotifierError ''notifier down'')),
                Sprintf_2f = (\<lambda>_. ''5.00%''), sort_Slice = insertionSortLessFunc\<rparr>"

text \<open>The world after \<open>CreateTank\<close> of a tank at a given level with threshold 10; the world
  after a first measurement of level 300, taken at time 100, has been added to the tank
  created at level 500; and the world after a second measurement of level 50, taken
  earlier, at time 50, has been added to that.\<close>

definition world_created :: "rat \<Rightarrow> World" where
  "world_created level = snd (CreateTank 1 (Some (test_tank ''t1'' level 10)) NewWorld)"

definition world_measured :: World where
  "world_measured =
     snd (AddMeasurement env_ok 100 (Some (test_measurement ''t1'' 300 100))
            (world_created 500))"

definition world_backdated :: World where
  "world_backdated =
     snd (AddMeasurement env_ok 200 (Some (test_measurement ''t1'' 50 50)) world_measured)"

text \<open>Three measurements of one tank, saved out of order.\<close>

definition three_calls :: "(time \<times> Measurement option) list" where
  "three_calls = [(1, Some (test_measurement ''t1'' 300 10)),
                  (1, Some (test_measurement ''t1'' 100 30)),
                  (1, Some (test_measurement ''t1'' 200 20))]"

text \<open>A division that answers NaN for every divisor that is zero or negative.\<close>

definition fdiv_guarded :: "float64 \<Rightarrow> float64 \<Rightarrow> float64" where
  "fdiv_guarded a b = (if fle b (Finite 0) then NaN else fdiv a b)"

section \<open>Auxiliary facts\<close>

subsection \<open>float64\<close>

lemma fle_not_NaN: "fle a b \<Longrightarrow> a \<noteq> NaN \<and> b \<noteq> NaN"
  by (cases a; cases b) simp_all

lemma flt_not_fle: "flt a b \<Longrightarrow> \<not> fle b a"
  by (cases a; cases b) simp_all

lemma not_fle_flt: "a \<noteq> NaN \<Longrightarrow> b \<noteq> NaN \<Longrightarrow> \<not> fle b a \<Longrightarrow> flt a b"
  by (cases a; cases b) auto

lemma fle_refl: "a \<noteq> NaN \<Longrightarrow> fle a a"
  by (cases a) simp_all

lemma flt_not_NaN: "flt a b \<Longrightarrow> a \<noteq> NaN \<and> b \<noteq> NaN"
  by (cases a; cases b) simp_all

lemma fmul_NaN_left: "fmul NaN y = NaN"
  by (simp add: fmul_def)

lemma warning_condition:
  "(\<not> fle p th \<and> fle p (fmul th c)) = (flt th p \<and> fle p (fmul th c))"
proof (cases "fle p (fmul th c)")
  case False
  then show ?thesis by simp
next
  case True
  then have "p \<noteq> NaN" and "fmul th c \<noteq> NaN" by (auto dest: fle_not_NaN)
  then have "th \<noteq> NaN" using fmul_NaN_left by auto
  with \<open>p \<noteq> NaN\<close> have "(\<not> fle p th) = flt th p"
    using flt_not_fle not_fle_flt by blast
  with True show ?thesis by simp
qed

lemma pct_50: "fmul (fdiv (Finite 50) (Finite 1000)) (Finite 100) = Finite 5"
  by code_simp

lemma pct_70:
  "fmul (fdiv (Finite 70) (Finite 1000)) (Finite 100) =
     Finite (7881299347898369 / 1125899906842624)"
  by code_simp

lemma pct_100: "fmul (fdiv (Finite 100) (Finite 1000)) (Finite 100) = Finite 10"
  by code_simp

lemma pct_140:
  "fmul (fdiv (Finite 140) (Finite 1000)) (Finite 100) =
     Finite (7881299347898369 / 562949953421312)"
  by code_simp

lemma pct_200: "fmul (fdiv (Finite 200) (Finite 1000)) (Finite 100) = Finite 20"
  by code_simp

lemma pct_201:
  "fmul (fdiv (Finite 201) (Finite 1000)) (Finite 100) =
     Finite (2828823515942093 / 140737488355328)"
  by code_simp

lemma pct_300: "fmul (fdiv (Finite 300) (Finite 1000)) (Finite 100) = Finite 30"
  by code_simp

lemma pct_500: "fmul (fdiv (Finite 500) (Finite 1000)) (Finite 100) = Finite 50"
  by code_simp

lemma twice_7: "fmul (Finite 7) (Finite 2) = Finite 14"
  by code_simp

lemma twice_10: "fmul (Finite 10) (Finite 2) = Finite 20"
  by code_simp

lemmas pct_evals = pct_50 pct_70 pct_100 pct_140 pct_200 pct_201 pct_300 pct_500 twice_7 twice_10

subsection \<open>The insertion sort meets the contract\<close>

lemma set_bubble: "set (bubble f x rp) = insert x (set rp)"
  by (induction rp) auto

lemma mset_bubble: "mset (bubble f x rp) = add_mset x (mset rp)"
  by (induction rp) auto

lemma mset_insertionSort: "mset (insertionSort f rp xs) = mset rp + mset xs"
  by (induction xs arbitrary: rp) (auto simp: mset_bubble)

lemma mset_insertionSortLessFunc: "mset (insertionSortLessFunc f xs) = mset xs"
  by (simp add: insertionSortLessFunc_def mset_insertionSort)

lemma oldest_first_bubble: "oldest_first rp \<Longrightarrow> oldest_first (bubble later x rp)"
  by (induction rp) (auto simp: oldest_first_def later_def After_def set_bubble)

lemma most_recent_first_insertionSort:
  "oldest_first rp \<Longrightarrow> most_recent_first (insertionSort later rp xs)"
proof (induction xs arbitrary: rp)
  case Nil
  then show ?case
    by (simp add: most_recent_first_def oldest_first_def sorted_wrt_rev)
next
  case (Cons x xs)
  then show ?case by (simp add: oldest_first_bubble)
qed

lemma insertionSortLessFunc_contract: "sort_Slice_contract insertionSortLessFunc"
  by (simp add: sort_Slice_contract_def mset_insertionSort
      insertionSortLessFunc_def most_recent_first_insertionSort oldest_first_def)

lemma env_ok_contract: "sort_Slice_contract (sort_Slice env_ok)"
  by (simp add: env_ok_def insertionSortLessFunc_contract)

lemma env_down_contract: "sort_Slice_contract (sort_Slice env_down)"
  by (simp add: env_down_def insertionSortLessFunc_contract)

subsection \<open>What the contract gives\<close>

lemma contract_mset: "sort_Slice_contract srt \<Longrightarrow> mset (srt later xs) = mset xs"
  by (simp add: sort_Slice_contract_def)

lemma contract_set: "sort_Slice_contract srt \<Longrightarrow> set (srt later xs) = set xs"
  by (metis contract_mset set_mset_mset)

lemma contract_sorted: "sort_Slice_contract srt \<Longrightarrow> most_recent_first (srt later xs)"
  by (simp add: sort_Slice_contract_def)

lemma contract_not_Nil:
  assumes "sort_Slice_contract srt"
  shows "srt later (xs @ [x]) \<noteq> []"
proof
  assume "srt later (xs @ [x]) = []"
  then have "mset (srt later (xs @ [x])) = {#}" by simp
  with contract_mset [OF assms, of "xs @ [x]"] show False by simp
qed

lemma latest_first:
  assumes "sort_Slice_contract srt"
  shows "\<exists>latest rest. srt later (old @ [x]) = latest # rest
           \<and> latest \<in> set (old @ [x])
           \<and> (\<forall>y \<in> set (old @ [x]). Timestamp y \<le> Timestamp latest)"
proof -
  let ?s = "srt later (old @ [x])"
  have "?s \<noteq> []" using assms by (rule contract_not_Nil)
  then obtain latest rest where s: "?s = latest # rest"
    by (cases ?s) auto
  have sets: "set ?s = set (old @ [x])" using assms by (rule contract_set)
  have "most_recent_first ?s" using assms by (rule contract_sorted)
  with s have le: "\<forall>y \<in> set rest. Timestamp y \<le> Timestamp latest"
    by (simp add: most_recent_first_def)
  have "\<forall>y \<in> set (old @ [x]). Timestamp y \<le> Timestamp latest"
  proof
    fix y assume "y \<in> set (old @ [x])"
    with sets s have "y = latest \<or> y \<in> set rest" by auto
    with le show "Timestamp y \<le> Timestamp latest" by auto
  qed
  moreover from sets s have "latest \<in> set (old @ [x])" by auto
  ultimately show ?thesis using s by blast
qed

lemma newest_first:
  fixes x :: Measurement
  assumes "sort_Slice_contract srt"
    and "\<forall>y \<in> set old. Timestamp y < Timestamp x"
    and "srt later (old @ [x]) = latest # rest"
  shows "latest = x"
proof (rule ccontr)
  assume ne: "latest \<noteq> x"
  from latest_first [OF assms(1), of old x] assms(3)
  have mem: "latest \<in> set (old @ [x])"
    and le: "\<forall>y \<in> set (old @ [x]). Timestamp y \<le> Timestamp latest"
    by auto
  from mem ne have "latest \<in> set old" by auto
  with assms(2) have "Timestamp latest < Timestamp x" by blast
  moreover from le have "Timestamp x \<le> Timestamp latest" by simp
  ultimately show False by simp
qed

subsection \<open>Projection and the two writes of AddMeasurement\<close>

lemma GetLevelPercentage_Status:
  "GetLevelPercentage (t\<lparr>Status := s\<rparr>) = GetLevelPercentage t"
  by (simp add: GetLevelPercentage_def GetLevelPercentage_div_def)

lemma UpdateStatus_eq:
  "UpdateStatus t = t\<lparr>Status :=
     (if fle (GetLevelPercentage t) (AlertThreshold t) then ''critical''
      else if fle (GetLevelPercentage t) (fmul (AlertThreshold t) (Finite 2)) then ''warning''
      else ''normal'')\<rparr>"
  by (simp add: UpdateStatus_def Let_def)

lemma three_tier_UpdateStatus: "three_tier (UpdateStatus t)"
  using warning_condition [of "GetLevelPercentage t" "AlertThreshold t" "Finite 2"]
  by (auto simp: three_tier_def UpdateStatus_eq GetLevelPercentage_Status)

lemma project_project: "project (project t a) b = project t b"
  by (simp add: project_def UpdateStatus_eq GetLevelPercentage_def GetLevelPercentage_div_def)

lemma three_tier_project: "three_tier (project t m)"
  by (simp add: project_def three_tier_UpdateStatus)

lemma stamped_idem: "stamped now (stamped now m) = stamped now m"
  by (simp add: stamped_def IsZero_def)

lemma TankID_stamped: "TankID (stamped now m) = TankID m"
  by (simp add: stamped_def)

lemma Level_stamped: "Level (stamped now m) = Level m"
  by (simp add: stamped_def)

lemma project_fields:
  "ID (project t m) = ID t" "Name (project t m) = Name t"
  "Capacity (project t m) = Capacity t" "AlertThreshold (project t m) = AlertThreshold t"
  "CurrentLevel (project t m) = Level m" "Temperature (project t m) = MeasurementTemperature m"
  "LastUpdated (project t m) = Timestamp m"
  by (simp_all add: project_def UpdateStatus_eq)

lemma SaveMeasurement_stamped:
  "SaveMeasurement srt now (Some (stamped now m)) r =
     Inr (stamped now m, r(TankID m \<mapsto> srt later (history r (TankID m) @ [stamped now m])))"
proof -
  have "(if IsZero (Timestamp (stamped now m)) then (stamped now m)\<lparr>Timestamp := now\<rparr>
         else stamped now m) = stamped now m"
    using stamped_idem [of now m] by (simp add: stamped_def [of now "stamped now m"])
  then show ?thesis
    by (simp add: SaveMeasurement_def Let_def history_def TankID_stamped)
qed

lemma repo_UpdateTank_project:
  "r (ID t) = Some t0 \<Longrightarrow>
   repo_UpdateTank now (Some (project t (stamped now m))) r =
     Inr (r(ID t \<mapsto> project t (stamped now m)))"
  by (auto simp: repo_UpdateTank_def Let_def project_fields IsZero_def stamped_def)

lemma AddMeasurement_unfold:
  assumes "TankID m \<noteq> []" and "\<not> flt (Level m) (Finite 0)"
    and "tanks w (TankID m) = Some tank" and "ID tank = TankID m"
  shows "AddMeasurement env now (Some m) w =
           MonitorTank env (after_writes env now m tank w) (TankID m)"
proof -
  have "repo_UpdateTank now (Some (project tank (stamped now m))) (tanks w) =
          Inr ((tanks w)(TankID m \<mapsto> project tank (stamped now m)))"
    using repo_UpdateTank_project [of "tanks w" tank tank now m] assms by simp
  then show ?thesis
    using assms
    by (simp add: AddMeasurement_def repo_GetTank_def stamped_def [symmetric]
        SaveMeasurement_stamped TankID_stamped after_writes_def Let_def)
qed

lemma GetTank_after_writes:
  assumes "TankID m \<noteq> []"
    and "sort_Slice env later (history (measurements w) (TankID m) @ [stamped now m])
           = latest # rest"
  shows "GetTank (after_writes env now m tank w) (TankID m) = Inr (project tank latest)"
  using assms
  by (simp add: GetTank_def after_writes_def repo_GetTank_def GetLastMeasurement_def
      project_project)

lemma MonitorTank_repositories:
  "tanks (snd (MonitorTank env w tankID)) = tanks w
   \<and> measurements (snd (MonitorTank env w tankID)) = measurements w"
  by (simp add: MonitorTank_def Let_def split: sum.splits)

lemma MonitorTank_alerts:
  "GetTank w tankID = Inr pt \<Longrightarrow>
   MonitorTank env w tankID =
     (if IsLevelCritical pt
      then (SendAlert env (alerts w) tankID (alert_message env pt),
            w\<lparr>alerts := alerts w @ [(tankID, alert_message env pt)]\<rparr>)
      else (None, w))"
  by (simp add: MonitorTank_def Let_def)

lemma after_writes_fields:
  "alerts (after_writes env now m tank w) = alerts w
   \<and> tanks (after_writes env now m tank w) (TankID m) = Some (project tank (stamped now m))
   \<and> history (measurements (after_writes env now m tank w)) (TankID m) =
       sort_Slice env later (history (measurements w) (TankID m) @ [stamped now m])"
  by (simp add: after_writes_def history_def)

subsection \<open>Histories\<close>

lemma most_recent_first_take: "most_recent_first ms \<Longrightarrow> most_recent_first (take n ms)"
  unfolding most_recent_first_def
  by (induction ms arbitrary: n) (auto simp: take_Cons' dest: in_set_takeD)

lemma SaveMeasurement_Some:
  "SaveMeasurement srt now (Some m) r =
     Inr (stamped now m, r(TankID m \<mapsto> srt later (history r (TankID m) @ [stamped now m])))"
  by (simp add: SaveMeasurement_def Let_def history_def stamped_def)

lemma SaveMeasurement_None: "SaveMeasurement srt now None r = Inl ErrMeasurementNil"
  by (simp add: SaveMeasurement_def)

lemma history_upd:
  "history (r(k \<mapsto> ms)) tankID = (if tankID = k then ms else history r tankID)"
  by (simp add: history_def)

lemma save_all_sorted:
  assumes "sort_Slice_contract srt"
  shows "most_recent_first (history r tankID) \<Longrightarrow>
         most_recent_first (history (save_all srt calls r) tankID)"
proof (induction calls arbitrary: r)
  case Nil
  then show ?case by simp
next
  case (Cons c calls)
  obtain now m where c: "c = (now, m)" by (cases c)
  show ?case
  proof (cases m)
    case None
    with Cons c show ?thesis by (simp add: SaveMeasurement_None)
  next
    case (Some x)
    define r' where "r' = r(TankID x \<mapsto> srt later (history r (TankID x) @ [stamped now x]))"
    have "most_recent_first (history r' tankID)"
      unfolding r'_def using Cons.prems contract_sorted [OF assms]
      by (simp add: history_upd)
    then have "most_recent_first (history (save_all srt calls r') tankID)"
      by (rule Cons.IH)
    moreover have "save_all srt (c # calls) r = save_all srt calls r'"
      using Some c by (simp add: SaveMeasurement_Some r'_def)
    ultimately show ?thesis by simp
  qed
qed

lemma save_all_mset:
  assumes "sort_Slice_contract srt"
  shows "mset (history (save_all srt calls r) tankID) =
           mset (history r tankID) + mset (saved_for tankID calls)"
proof (induction calls arbitrary: r)
  case Nil
  then show ?case by simp
next
  case (Cons c calls)
  obtain now m where c: "c = (now, m)" by (cases c)
  show ?case
  proof (cases m)
    case None
    with Cons c show ?thesis by (simp add: SaveMeasurement_None)
  next
    case (Some x)
    define r' where "r' = r(TankID x \<mapsto> srt later (history r (TankID x) @ [stamped now x]))"
    have h: "mset (history r' tankID) =
            mset (history r tankID) + (if TankID x = tankID then {#stamped now x#} else {#})"
      unfolding r'_def using contract_mset [OF assms] by (simp add: history_upd)
    have s: "save_all srt (c # calls) r = save_all srt calls r'"
      using Some c by (simp add: SaveMeasurement_Some r'_def)
    have "mset (history (save_all srt calls r') tankID) =
            mset (history r' tankID) + mset (saved_for tankID calls)"
      by (rule Cons.IH)
    with h s Some c show ?thesis by simp
  qed
qed

lemma history_New: "history NewMemoryMeasurementRepository tankID = []"
  by (simp add: history_def NewMemoryMeasurementRepository_def)

subsection \<open>The scenarios, evaluated\<close>

lemma test_tank_fields:
  "ID (test_tank i l th) = i" "Name (test_tank i l th) = ''Tanque de Prueba''"
  "Capacity (test_tank i l th) = Finite 1000" "CurrentLevel (test_tank i l th) = Finite l"
  "AlertThreshold (test_tank i l th) = Finite th" "Status (test_tank i l th) = ''normal''"
  by (simp_all add: test_tank_def)

lemma test_measurement_fields:
  "TankID (test_measurement i l ts) = i" "Level (test_measurement i l ts) = Finite l"
  "Timestamp (test_measurement i l ts) = ts"
  by (simp_all add: test_measurement_def)

lemma GetLevelPercentage_test_tank:
  "GetLevelPercentage (test_tank i l th) = fmul (fdiv (Finite l) (Finite 1000)) (Finite 100)"
  by (simp add: GetLevelPercentage_def GetLevelPercentage_div_def test_tank_def)

lemma GetLevelPercentage_LastUpdated:
  "GetLevelPercentage (t\<lparr>LastUpdated := u\<rparr>) = GetLevelPercentage t"
  by (simp add: GetLevelPercentage_def GetLevelPercentage_div_def)

lemma project_test_tank:
  "project ((test_tank i l th)\<lparr>LastUpdated := u, Status := s\<rparr>) (test_measurement i l' ts) =
     UpdateStatus ((test_tank i l' th)\<lparr>LastUpdated := ts\<rparr>)"
  "project ((test_tank i l th)\<lparr>LastUpdated := u\<rparr>) (test_measurement i l' ts) =
     UpdateStatus ((test_tank i l' th)\<lparr>LastUpdated := ts\<rparr>)"
  by (simp_all add: project_def test_tank_def test_measurement_def UpdateStatus_eq
      GetLevelPercentage_def GetLevelPercentage_div_def)

lemma pct_test_tank:
  "GetLevelPercentage ((test_tank i l th)\<lparr>LastUpdated := ts\<rparr>) =
     fmul (fdiv (Finite l) (Finite 1000)) (Finite 100)"
  "AlertThreshold ((test_tank i l th)\<lparr>LastUpdated := ts\<rparr>) = Finite th"
  by (simp_all add: GetLevelPercentage_LastUpdated GetLevelPercentage_test_tank
      test_tank_fields)

lemma UpdateStatus_300:
  "UpdateStatus ((test_tank i 300 10)\<lparr>LastUpdated := ts\<rparr>) = (test_tank i 300 10)\<lparr>LastUpdated := ts\<rparr>"
  unfolding UpdateStatus_eq pct_test_tank pct_evals
  by (simp add: test_tank_def)

lemma UpdateStatus_50:
  "UpdateStatus ((test_tank i 50 10)\<lparr>LastUpdated := ts\<rparr>) =
     (test_tank i 50 10)\<lparr>LastUpdated := ts, Status := ''critical''\<rparr>"
  unfolding UpdateStatus_eq pct_test_tank pct_evals
  by (simp add: test_tank_def)

lemma world_created_eq:
  "world_created level =
     \<lparr>tanks = [''t1'' \<mapsto> (test_tank ''t1'' level 10)\<lparr>LastUpdated := 1\<rparr>],
      measurements = Map.empty, alerts = []\<rparr>"
  by (simp add: world_created_def CreateTank_def repo_SaveTank_def test_tank_def
      NewWorld_def NewMemoryTankRepository_def NewMemoryMeasurementRepository_def
      IsZero_def Let_def)

lemma sort_one: "insertionSortLessFunc later [a] = [a]"
  by (simp add: insertionSortLessFunc_def)

lemma sort_backdated:
  "insertionSortLessFunc later [test_measurement i l 100, test_measurement i l' 50] =
     [test_measurement i l 100, test_measurement i l' 50]"
  by (simp add: insertionSortLessFunc_def later_def After_def test_measurement_def)

lemma after_writes_created:
  "after_writes env_ok now (test_measurement ''t1'' l 100)
      ((test_tank ''t1'' 500 10)\<lparr>LastUpdated := 1\<rparr>) (world_created 500) =
     \<lparr>tanks = [''t1'' \<mapsto> UpdateStatus ((test_tank ''t1'' l 10)\<lparr>LastUpdated := 100\<rparr>)],
      measurements = [''t1'' \<mapsto> [test_measurement ''t1'' l 100]], alerts = []\<rparr>"
proof -
  have st: "stamped now (test_measurement ''t1'' l 100) = test_measurement ''t1'' l 100"
    by (simp add: stamped_def IsZero_def test_measurement_def)
  show ?thesis
    unfolding world_created_eq
    by (simp add: after_writes_def st project_test_tank history_def sort_one
        test_measurement_fields env_ok_def)
qed

lemma after_writes_down:
  "after_writes env_down now (test_measurement ''t1'' l 100)
      ((test_tank ''t1'' 500 10)\<lparr>LastUpdated := 1\<rparr>) (world_created 500) =
     \<lparr>tanks = [''t1'' \<mapsto> UpdateStatus ((test_tank ''t1'' l 10)\<lparr>LastUpdated := 100\<rparr>)],
      measurements = [''t1'' \<mapsto> [test_measurement ''t1'' l 100]], alerts = []\<rparr>"
proof -
  have st: "stamped now (test_measurement ''t1'' l 100) = test_measurement ''t1'' l 100"
    by (simp add: stamped_def IsZero_def test_measurement_def)
  show ?thesis
    unfolding world_created_eq
    by (simp add: after_writes_def st project_test_tank history_def sort_one
        test_measurement_fields env_down_def)
qed

lemma GetTank_one_measurement:
  "GetTank \<lparr>tanks = [''t1'' \<mapsto> UpdateStatus ((test_tank ''t1'' l 10)\<lparr>LastUpdated := 100\<rparr>)],
      measurements = [''t1'' \<mapsto> [test_measurement ''t1'' l 100]], alerts = a\<rparr> ''t1''
   = Inr (UpdateStatus ((test_tank ''t1'' l 10)\<lparr>LastUpdated := 100\<rparr>))"
proof -
  have "project (UpdateStatus ((test_tank ''t1'' l 10)\<lparr>LastUpdated := 100\<rparr>))
          (test_measurement ''t1'' l 100)
        = UpdateStatus ((test_tank ''t1'' l 10)\<lparr>LastUpdated := 100\<rparr>)"
    using project_project [of "(test_tank ''t1'' 500 10)\<lparr>LastUpdated := 1\<rparr>"
        "test_measurement ''t1'' l 100" "test_measurement ''t1'' l 100"]
    by (simp add: project_test_tank)
  then show ?thesis
    by (simp add: GetTank_def repo_GetTank_def GetLastMeasurement_def)
qed

lemma world_measured_eq:
  "world_measured =
     \<lparr>tanks = [''t1'' \<mapsto> (test_tank ''t1'' 300 10)\<lparr>LastUpdated := 100\<rparr>],
      measurements = [''t1'' \<mapsto> [test_measurement ''t1'' 300 100]], alerts = []\<rparr>"
proof -
  let ?m = "test_measurement ''t1'' 300 100"
  let ?tank = "(test_tank ''t1'' 500 10)\<lparr>LastUpdated := 1\<rparr>"
  let ?w = "\<lparr>tanks = [''t1'' \<mapsto> (test_tank ''t1'' 300 10)\<lparr>LastUpdated := 100\<rparr>],
      measurements = [''t1'' \<mapsto> [?m]], alerts = []\<rparr>"
  have "AddMeasurement env_ok 100 (Some ?m) (world_created 500)
      = MonitorTank env_ok (after_writes env_ok 100 ?m ?tank (world_created 500)) (TankID ?m)"
    by (rule AddMeasurement_unfold)
       (simp_all add: world_created_eq test_measurement_fields test_tank_fields)
  also have "after_writes env_ok 100 ?m ?tank (world_created 500) = ?w"
    by (simp add: after_writes_created UpdateStatus_300)
  also have "MonitorTank env_ok ?w (TankID ?m) = (None, ?w)"
    using GetTank_one_measurement [of 300 "[]"]
    by (simp add: MonitorTank_def UpdateStatus_300 test_measurement_fields IsLevelCritical_def
        pct_test_tank pct_evals)
  finally show ?thesis by (simp add: world_measured_def)
qed

lemma after_writes_measured:
  "after_writes env_ok 200 (test_measurement ''t1'' 50 50)
      ((test_tank ''t1'' 300 10)\<lparr>LastUpdated := 100\<rparr>) world_measured =
     \<lparr>tanks = [''t1'' \<mapsto> (test_tank ''t1'' 50 10)\<lparr>LastUpdated := 50, Status := ''critical''\<rparr>],
      measurements = [''t1'' \<mapsto> [test_measurement ''t1'' 300 100,
                                   test_measurement ''t1'' 50 50]],
      alerts = []\<rparr>"
proof -
  have st: "stamped 200 (test_measurement ''t1'' 50 50) = test_measurement ''t1'' 50 50"
    by (simp add: stamped_def IsZero_def test_measurement_def)
  show ?thesis
    unfolding world_measured_eq
    by (simp add: after_writes_def st project_test_tank UpdateStatus_50 history_def
        sort_backdated test_measurement_fields env_ok_def)
qed

lemma GetTank_after_writes_measured:
  "GetTank (after_writes env_ok 200 (test_measurement ''t1'' 50 50)
      ((test_tank ''t1'' 300 10)\<lparr>LastUpdated := 100\<rparr>) world_measured) ''t1''
   = Inr ((test_tank ''t1'' 300 10)\<lparr>LastUpdated := 100\<rparr>)"
  unfolding after_writes_measured
  by (simp add: GetTank_def repo_GetTank_def GetLastMeasurement_def project_test_tank
      UpdateStatus_300)

lemma world_backdated_eq:
  "world_backdated =
     \<lparr>tanks = [''t1'' \<mapsto> (test_tank ''t1'' 50 10)\<lparr>LastUpdated := 50, Status := ''critical''\<rparr>],
      measurements = [''t1'' \<mapsto> [test_measurement ''t1'' 300 100,
                                   test_measurement ''t1'' 50 50]],
      alerts = []\<rparr>"
proof -
  let ?m = "test_measurement ''t1'' 50 50"
  let ?tank = "(test_tank ''t1'' 300 10)\<lparr>LastUpdated := 100\<rparr>"
  have "AddMeasurement env_ok 200 (Some ?m) world_measured
      = MonitorTank env_ok (after_writes env_ok 200 ?m ?tank world_measured) (TankID ?m)"
    by (rule AddMeasurement_unfold)
       (simp_all add: world_measured_eq test_measurement_fields test_tank_fields)
  also have "\<dots> = (None, after_writes env_ok 200 ?m ?tank world_measured)"
    using GetTank_after_writes_measured
    by (simp add: MonitorTank_def test_measurement_fields IsLevelCritical_def
        pct_test_tank pct_evals)
  finally show ?thesis by (simp add: world_backdated_def after_writes_measured)
qed

subsection \<open>CreateTank and GetTank\<close>

lemma CreateTank_invalid:
  "Name t = [] \<or> fle (Capacity t) (Finite 0) \<Longrightarrow>
   CreateTank now (Some t) w = (Some ErrInvalidTank, w)"
  by (simp add: CreateTank_def)

lemma CreateTank_valid:
  "Name t \<noteq> [] \<Longrightarrow> \<not> fle (Capacity t) (Finite 0) \<Longrightarrow>
   CreateTank now (Some t) w =
     (None, w\<lparr>tanks := (tanks w)(ID t \<mapsto>
        t\<lparr>Status := ''normal'',
          AlertThreshold := (if fle (AlertThreshold t) (Finite 0) then Finite 10
                             else AlertThreshold t),
          LastUpdated := now\<rparr>)\<rparr>)"
  by (auto simp: CreateTank_def repo_SaveTank_def Let_def IsZero_def)

lemma CreateTank_persists_normal:
  assumes "fst (CreateTank now (Some t) w) = None"
  shows "\<exists>t'. tanks (snd (CreateTank now (Some t) w)) (ID t) = Some t'
            \<and> Status t' = ''normal''"
proof (cases "Name t = [] \<or> fle (Capacity t) (Finite 0)")
  case True
  from CreateTank_invalid [OF this, of now w] assms show ?thesis by simp
next
  case False
  then have "Name t \<noteq> []" and "\<not> fle (Capacity t) (Finite 0)" by simp_all
  from CreateTank_valid [OF this, of now w]
  have "tanks (snd (CreateTank now (Some t) w)) (ID t) =
          Some (t\<lparr>Status := ''normal'',
            AlertThreshold := (if fle (AlertThreshold t) (Finite 0) then Finite 10
                               else AlertThreshold t),
            LastUpdated := now\<rparr>)"
    by simp
  moreover have "Status (t\<lparr>Status := ''normal'',
            AlertThreshold := (if fle (AlertThreshold t) (Finite 0) then Finite 10
                               else AlertThreshold t),
            LastUpdated := now\<rparr>) = ''normal''"
    by simp
  ultimately show ?thesis by blast
qed

lemma GetTank_Inr_D:
  assumes "GetTank w id' = Inr t'"
  shows "id' \<noteq> [] \<and> (\<exists>tank. tanks w id' = Some tank)"
proof (cases "id' = []")
  case True
  with assms show ?thesis by (simp add: GetTank_def)
next
  case False
  show ?thesis
  proof (cases "tanks w id'")
    case None
    with assms False show ?thesis by (simp add: GetTank_def repo_GetTank_def)
  next
    case (Some tank)
    with False show ?thesis by simp
  qed
qed

lemma GetTank_with_history:
  assumes "GetTank w id' = Inr t'" and "tanks w id' = Some tank"
    and "history (measurements w) id' = m # ms"
  shows "t' = project tank m"
proof -
  from GetTank_Inr_D [OF assms(1)] have ne: "id' \<noteq> []" by blast
  from assms(3) have h: "measurements w id' = Some (m # ms)"
    by (cases "measurements w id'") (simp_all add: history_def)
  from assms(1,2) ne h show ?thesis
    by (simp add: GetTank_def repo_GetTank_def GetLastMeasurement_def)
qed

lemma GetTank_without_history:
  assumes "GetTank w id' = Inr t'" and "history (measurements w) id' = []"
  shows "tanks w id' = Some t'"
proof -
  from GetTank_Inr_D [OF assms(1)] obtain tank where ne: "id' \<noteq> []"
    and t: "tanks w id' = Some tank" by blast
  have "GetLastMeasurement (measurements w) id' = Inr None"
  proof (cases "measurements w id'")
    case None
    with ne show ?thesis by (simp add: GetLastMeasurement_def)
  next
    case (Some ms)
    with assms(2) have "ms = []" by (simp add: history_def)
    with Some ne show ?thesis by (simp add: GetLastMeasurement_def)
  qed
  with assms(1) ne t show ?thesis
    by (simp add: GetTank_def repo_GetTank_def)
qed

subsection \<open>Tanks stay stored under their own ID\<close>

lemma keys_consistent_NewWorld: "keys_consistent NewWorld"
  by (simp add: keys_consistent_def NewWorld_def NewMemoryTankRepository_def)

lemma keys_consistent_upd:
  "keys_consistent w \<Longrightarrow> ID t = k \<Longrightarrow> keys_consistent (w\<lparr>tanks := (tanks w)(k \<mapsto> t)\<rparr>)"
  by (simp add: keys_consistent_def)

lemma keys_consistent_CreateTank:
  assumes "keys_consistent w"
  shows "keys_consistent (snd (CreateTank now tank w))"
proof (cases tank)
  case None
  with assms show ?thesis by (simp add: CreateTank_def)
next
  case (Some t)
  show ?thesis
  proof (cases "Name t = [] \<or> fle (Capacity t) (Finite 0)")
    case True
    from CreateTank_invalid [OF this, of now w] assms Some show ?thesis by simp
  next
    case False
    then have "Name t \<noteq> []" and "\<not> fle (Capacity t) (Finite 0)" by simp_all
    from CreateTank_valid [OF this, of now w] Some assms show ?thesis
      by (simp add: keys_consistent_upd)
  qed
qed

lemma keys_consistent_DeleteTank:
  assumes "keys_consistent w"
  shows "keys_consistent (snd (DeleteTank id' w))"
proof (cases "id' = [] \<or> tanks w id' = None")
  case True
  with assms show ?thesis by (auto simp: DeleteTank_def repo_GetTank_def)
next
  case False
  then obtain t where "id' \<noteq> []" and "tanks w id' = Some t" by auto
  then have "snd (DeleteTank id' w) = w\<lparr>tanks := (tanks w)(id' := None)\<rparr>"
    by (simp add: DeleteTank_def repo_GetTank_def repo_DeleteTank_def)
  with assms show ?thesis by (simp add: keys_consistent_def)
qed

lemma keys_consistent_UpdateTank:
  assumes "keys_consistent w"
  shows "keys_consistent (snd (UpdateTank now tank w))"
proof (cases tank)
  case None
  with assms show ?thesis by (simp add: UpdateTank_def)
next
  case (Some t)
  show ?thesis
  proof (cases "ID t = [] \<or> tanks w (ID t) = None")
    case True
    with assms Some show ?thesis by (auto simp: UpdateTank_def repo_GetTank_def)
  next
    case False
    then obtain t0 where "ID t \<noteq> []" and "tanks w (ID t) = Some t0" by auto
    then have "snd (UpdateTank now tank w) =
        w\<lparr>tanks := (tanks w)(ID t \<mapsto> (UpdateStatus t)\<lparr>LastUpdated := now\<rparr>)\<rparr>"
      using Some
      by (simp add: UpdateTank_def repo_GetTank_def repo_UpdateTank_def Let_def IsZero_def
          UpdateStatus_eq)
    moreover have "ID ((UpdateStatus t)\<lparr>LastUpdated := now\<rparr>) = ID t"
      by (simp add: UpdateStatus_eq)
    ultimately show ?thesis using assms by (simp add: keys_consistent_upd)
  qed
qed

lemma keys_consistent_AddMeasurement:
  assumes "keys_consistent w"
  shows "keys_consistent (snd (AddMeasurement env now (Some m) w))"
proof (cases "TankID m = [] \<or> flt (Level m) (Finite 0)")
  case True
  with assms show ?thesis by (simp add: AddMeasurement_def)
next
  case False
  then have v: "TankID m \<noteq> []" "\<not> flt (Level m) (Finite 0)" by simp_all
  show ?thesis
  proof (cases "tanks w (TankID m)")
    case None
    with assms v show ?thesis by (simp add: AddMeasurement_def repo_GetTank_def)
  next
    case (Some tank)
    with assms have i: "ID tank = TankID m" by (simp add: keys_consistent_def)
    have "tanks (snd (AddMeasurement env now (Some m) w)) =
            (tanks w)(TankID m \<mapsto> project tank (stamped now m))"
      by (simp add: AddMeasurement_unfold [OF v Some i] MonitorTank_repositories
          after_writes_def)
    with assms i show ?thesis
      by (simp add: keys_consistent_def project_fields)
  qed
qed

section \<open>Tank: fill percentage and status\<close>

text \<open>
  Claim C8. For every tank, GetLevelPercentage returns current_level / capacity * 100, as
  float64 computes it, when the capacity is positive, and 0 when the capacity is zero or
  negative. The division is never used with a divisor that is zero or negative: whatever
  a division answers for such divisors, the result is the same. There is no error outcome.
\<close>

theorem GetLevelPercentage_total:
  "(flt (Finite 0) (Capacity t) \<longrightarrow>
      GetLevelPercentage t = fmul (fdiv (CurrentLevel t) (Capacity t)) (Finite 100))
   \<and> (fle (Capacity t) (Finite 0) \<longrightarrow> GetLevelPercentage t = Finite 0)
   \<and> ((\<forall>a b. \<not> fle b (Finite 0) \<longrightarrow> d a b = fdiv a b) \<longrightarrow>
        GetLevelPercentage_div d t = GetLevelPercentage t)"
proof (intro conjI impI)
  assume "flt (Finite 0) (Capacity t)"
  then have "\<not> fle (Capacity t) (Finite 0)" by (rule flt_not_fle)
  then show "GetLevelPercentage t = fmul (fdiv (CurrentLevel t) (Capacity t)) (Finite 100)"
    by (simp add: GetLevelPercentage_def GetLevelPercentage_div_def)
next
  assume "fle (Capacity t) (Finite 0)"
  then show "GetLevelPercentage t = Finite 0"
    by (simp add: GetLevelPercentage_def GetLevelPercentage_div_def)
next
  assume "\<forall>a b. \<not> fle b (Finite 0) \<longrightarrow> d a b = fdiv a b"
  then show "GetLevelPercentage_div d t = GetLevelPercentage t"
    by (simp add: GetLevelPercentage_def GetLevelPercentage_div_def)
qed

theorem GetLevelPercentage_total_witness:
  "flt (Finite 0) (Capacity (test_tank ''t1'' 70 7))
   \<and> GetLevelPercentage (test_tank ''t1'' 70 7)
       = Finite (7881299347898369 / 1125899906842624)
   \<and> fle (Capacity ((test_tank ''t1'' 50 10)\<lparr>Capacity := Finite 0\<rparr>)) (Finite 0)
   \<and> GetLevelPercentage ((test_tank ''t1'' 50 10)\<lparr>Capacity := Finite 0\<rparr>) = Finite 0
   \<and> fdiv_guarded (Finite 50) (Finite 0) = NaN
   \<and> GetLevelPercentage_div fdiv_guarded ((test_tank ''t1'' 50 10)\<lparr>Capacity := Finite 0\<rparr>)
       = Finite 0"
proof -
  let ?t = "test_tank ''t1'' 70 7"
  let ?z = "(test_tank ''t1'' 50 10)\<lparr>Capacity := Finite 0\<rparr>"
  have a: "flt (Finite 0) (Capacity ?t)"
    and b: "fle (Capacity ?z) (Finite 0)"
    by (simp_all add: test_tank_def)
  from GetLevelPercentage_total [of ?t] a
  have "GetLevelPercentage ?t = fmul (fdiv (CurrentLevel ?t) (Capacity ?t)) (Finite 100)"
    by blast
  then have c: "GetLevelPercentage ?t = Finite (7881299347898369 / 1125899906842624)"
    by (simp add: test_tank_fields pct_70)
  from GetLevelPercentage_total [of ?z] b
  have e: "GetLevelPercentage ?z = Finite 0" by blast
  have g: "\<forall>a b. \<not> fle b (Finite 0) \<longrightarrow> fdiv_guarded a b = fdiv a b"
    by (simp add: fdiv_guarded_def)
  from GetLevelPercentage_total [of ?z fdiv_guarded] g
  have "GetLevelPercentage_div fdiv_guarded ?z = GetLevelPercentage ?z" by blast
  with e have f: "GetLevelPercentage_div fdiv_guarded ?z = Finite 0" by simp
  have h: "fdiv_guarded (Finite 50) (Finite 0) = NaN"
    by (simp add: fdiv_guarded_def)
  from a b c e f h show ?thesis by blast
qed

text \<open>
  Claim C3. For every tank, UpdateStatus sets the status to critical when the fill
  percentage is at most the threshold, to warning when it is above the threshold and at
  most twice the threshold, and to normal otherwise, and changes no other field. Both
  boundaries are inclusive: a percentage equal to the threshold gives critical, and a
  percentage equal to twice the threshold, where that lies above the threshold (as it
  does for every positive threshold whose double is exact), gives warning.
\<close>

theorem UpdateStatus_tiers:
  "Status (UpdateStatus t) =
     (if fle (GetLevelPercentage t) (AlertThreshold t) then ''critical''
      else if fle (GetLevelPercentage t) (fmul (AlertThreshold t) (Finite 2)) then ''warning''
      else ''normal'')
   \<and> three_tier (UpdateStatus t)
   \<and> UpdateStatus t = t\<lparr>Status := Status (UpdateStatus t)\<rparr>
   \<and> (GetLevelPercentage t = AlertThreshold t \<and> AlertThreshold t \<noteq> NaN
        \<longrightarrow> Status (UpdateStatus t) = ''critical'')
   \<and> (GetLevelPercentage t = fmul (AlertThreshold t) (Finite 2)
        \<and> flt (AlertThreshold t) (GetLevelPercentage t)
        \<longrightarrow> Status (UpdateStatus t) = ''warning'')
   \<and> (AlertThreshold t = Finite x \<and> 0 < x
        \<and> fmul (AlertThreshold t) (Finite 2) = Finite (2 * x)
        \<and> GetLevelPercentage t = Finite (2 * x)
        \<longrightarrow> Status (UpdateStatus t) = ''warning'')"
proof (intro conjI impI)
  show "Status (UpdateStatus t) =
     (if fle (GetLevelPercentage t) (AlertThreshold t) then ''critical''
      else if fle (GetLevelPercentage t) (fmul (AlertThreshold t) (Finite 2)) then ''warning''
      else ''normal'')"
    by (simp add: UpdateStatus_eq)
  show "three_tier (UpdateStatus t)" by (rule three_tier_UpdateStatus)
  show "UpdateStatus t = t\<lparr>Status := Status (UpdateStatus t)\<rparr>"
    by (simp add: UpdateStatus_eq)
next
  assume "GetLevelPercentage t = AlertThreshold t \<and> AlertThreshold t \<noteq> NaN"
  then have "fle (GetLevelPercentage t) (AlertThreshold t)" by (simp add: fle_refl)
  then show "Status (UpdateStatus t) = ''critical''" by (simp add: UpdateStatus_eq)
next
  assume h: "GetLevelPercentage t = fmul (AlertThreshold t) (Finite 2)
        \<and> flt (AlertThreshold t) (GetLevelPercentage t)"
  then have lt: "flt (AlertThreshold t) (GetLevelPercentage t)" by blast
  then have n: "\<not> fle (GetLevelPercentage t) (AlertThreshold t)" by (rule flt_not_fle)
  from lt have "GetLevelPercentage t \<noteq> NaN" using flt_not_NaN by blast
  then have "fle (GetLevelPercentage t) (GetLevelPercentage t)" by (rule fle_refl)
  with h have "fle (GetLevelPercentage t) (fmul (AlertThreshold t) (Finite 2))" by metis
  with n show "Status (UpdateStatus t) = ''warning''"
    by (simp only: UpdateStatus_eq) simp
next
  assume "AlertThreshold t = Finite x \<and> 0 < x
        \<and> fmul (AlertThreshold t) (Finite 2) = Finite (2 * x)
        \<and> GetLevelPercentage t = Finite (2 * x)"
  then have th: "AlertThreshold t = Finite x" and x: "0 < x"
    and d: "fmul (AlertThreshold t) (Finite 2) = Finite (2 * x)"
    and p: "GetLevelPercentage t = Finite (2 * x)"
    by blast+
  show "Status (UpdateStatus t) = ''warning''"
    using x by (simp only: UpdateStatus_eq p d) (simp add: th)
qed

theorem UpdateStatus_tiers_witness:
  "GetLevelPercentage (test_tank ''t1'' 100 10) = AlertThreshold (test_tank ''t1'' 100 10)
   \<and> AlertThreshold (test_tank ''t1'' 100 10) \<noteq> NaN
   \<and> Status (UpdateStatus (test_tank ''t1'' 100 10)) = ''critical''
   \<and> GetLevelPercentage (test_tank ''t1'' 200 10)
       = fmul (AlertThreshold (test_tank ''t1'' 200 10)) (Finite 2)
   \<and> flt (AlertThreshold (test_tank ''t1'' 200 10)) (GetLevelPercentage (test_tank ''t1'' 200 10))
   \<and> Status (UpdateStatus (test_tank ''t1'' 200 10)) = ''warning''
   \<and> AlertThreshold (test_tank ''t1'' 200 10) = Finite 10 \<and> (0 :: rat) < 10
   \<and> fmul (AlertThreshold (test_tank ''t1'' 200 10)) (Finite 2) = Finite (2 * 10)
   \<and> GetLevelPercentage (test_tank ''t1'' 200 10) = Finite (2 * 10)
   \<and> Status (UpdateStatus (test_tank ''t1'' 201 10)) = ''normal''
   \<and> GetLevelPercentage (test_tank ''t1'' 70 7) = Finite (7881299347898369 / 1125899906842624)
   \<and> Status (UpdateStatus (test_tank ''t1'' 70 7)) = ''warning''
   \<and> GetLevelPercentage (test_tank ''t1'' 140 7) = Finite (7881299347898369 / 562949953421312)
   \<and> Status (UpdateStatus (test_tank ''t1'' 140 7)) = ''normal''"
proof -
  have a: "GetLevelPercentage (test_tank ''t1'' 100 10) = AlertThreshold (test_tank ''t1'' 100 10)
      \<and> AlertThreshold (test_tank ''t1'' 100 10) \<noteq> NaN"
    by (simp add: GetLevelPercentage_test_tank test_tank_fields pct_evals)
  have b: "GetLevelPercentage (test_tank ''t1'' 200 10)
       = fmul (AlertThreshold (test_tank ''t1'' 200 10)) (Finite 2)
      \<and> flt (AlertThreshold (test_tank ''t1'' 200 10))
            (GetLevelPercentage (test_tank ''t1'' 200 10))"
    by (simp add: GetLevelPercentage_test_tank test_tank_fields pct_evals)
  from UpdateStatus_tiers [of "test_tank ''t1'' 100 10"] a
  have c: "Status (UpdateStatus (test_tank ''t1'' 100 10)) = ''critical''" by blast
  from UpdateStatus_tiers [of "test_tank ''t1'' 200 10"] b
  have d: "Status (UpdateStatus (test_tank ''t1'' 200 10)) = ''warning''" by blast
  have e: "Status (UpdateStatus (test_tank ''t1'' 201 10)) = ''normal''"
    using UpdateStatus_tiers [of "test_tank ''t1'' 201 10"]
    by (simp add: GetLevelPercentage_test_tank test_tank_fields pct_evals)
  have f: "GetLevelPercentage (test_tank ''t1'' 70 7)
       = Finite (7881299347898369 / 1125899906842624)"
    and g: "GetLevelPercentage (test_tank ''t1'' 140 7)
       = Finite (7881299347898369 / 562949953421312)"
    by (simp_all add: GetLevelPercentage_test_tank pct_evals)
  have h: "Status (UpdateStatus (test_tank ''t1'' 70 7)) = ''warning''"
    using UpdateStatus_tiers [of "test_tank ''t1'' 70 7"]
    by (simp add: f test_tank_fields pct_evals)
  have i: "Status (UpdateStatus (test_tank ''t1'' 140 7)) = ''normal''"
    using UpdateStatus_tiers [of "test_tank ''t1'' 140 7"]
    by (simp add: g test_tank_fields pct_evals)
  have j: "AlertThreshold (test_tank ''t1'' 200 10) = Finite 10 \<and> (0 :: rat) < 10
      \<and> fmul (AlertThreshold (test_tank ''t1'' 200 10)) (Finite 2) = Finite (2 * 10)
      \<and> GetLevelPercentage (test_tank ''t1'' 200 10) = Finite (2 * 10)"
    by (simp add: GetLevelPercentage_test_tank test_tank_fields pct_evals)
  from a b c d e f g h i j show ?thesis by blast
qed

section \<open>Service: reading, creating and deleting tanks\<close>

text \<open>
  Claim C1, amended. After CreateTank succeeds, the stored tank has status normal, whatever
  its fill percentage. Whenever GetTank succeeds for a tank with at least one stored
  measurement, the tank it returns is the stored tank with level, temperature and
  last_updated taken from the first measurement of the stored history (the most recent
  one, since SaveMeasurement keeps the history sorted), and its status follows the
  three-tier rule on that level. For a tank with no stored measurement, GetTank returns
  the stored tank as it is, without computing the status again.
\<close>

theorem status_after_CreateTank_and_GetTank:
  "(fst (CreateTank now (Some t) w0) = None \<longrightarrow>
      (\<exists>t'. tanks (snd (CreateTank now (Some t) w0)) (ID t) = Some t'
            \<and> Status t' = ''normal''))
   \<and> (GetTank w id' = Inr t' \<and> tanks w id' = Some tank
        \<and> history (measurements w) id' = m # ms \<longrightarrow>
        t' = UpdateStatus (tank\<lparr>CurrentLevel := Level m,
                                 Temperature := MeasurementTemperature m,
                                 LastUpdated := Timestamp m\<rparr>)
        \<and> CurrentLevel t' = Level m
        \<and> Temperature t' = MeasurementTemperature m
        \<and> LastUpdated t' = Timestamp m
        \<and> Capacity t' = Capacity tank
        \<and> AlertThreshold t' = AlertThreshold tank
        \<and> three_tier t')
   \<and> (GetTank w id' = Inr t' \<and> history (measurements w) id' = [] \<longrightarrow> tanks w id' = Some t')"
proof (intro conjI impI)
  assume "fst (CreateTank now (Some t) w0) = None"
  then show "\<exists>t'. tanks (snd (CreateTank now (Some t) w0)) (ID t) = Some t'
            \<and> Status t' = ''normal''"
    by (rule CreateTank_persists_normal)
next
  assume "GetTank w id' = Inr t' \<and> history (measurements w) id' = []"
  then show "tanks w id' = Some t'"
    by (elim conjE) (rule GetTank_without_history)
next
  assume h: "GetTank w id' = Inr t' \<and> tanks w id' = Some tank
        \<and> history (measurements w) id' = m # ms"
  then have p: "t' = project tank m"
    by (elim conjE) (rule GetTank_with_history)
  then show "t' = UpdateStatus (tank\<lparr>CurrentLevel := Level m,
                                 Temperature := MeasurementTemperature m,
                                 LastUpdated := Timestamp m\<rparr>)"
    by (simp add: project_def)
  from p show "CurrentLevel t' = Level m" by (simp add: project_fields)
  from p show "Temperature t' = MeasurementTemperature m" by (simp add: project_fields)
  from p show "LastUpdated t' = Timestamp m" by (simp add: project_fields)
  from p show "Capacity t' = Capacity tank" by (simp add: project_fields)
  from p show "AlertThreshold t' = AlertThreshold tank" by (simp add: project_fields)
  from p show "three_tier t'" by (simp add: three_tier_project)
qed

theorem status_after_CreateTank_and_GetTank_witness:
  "fst (CreateTank 1 (Some (test_tank ''t1'' 50 10)) NewWorld) = None
   \<and> tanks world_backdated ''t1''
       = Some ((test_tank ''t1'' 50 10)\<lparr>LastUpdated := 50, Status := ''critical''\<rparr>)
   \<and> history (measurements world_backdated) ''t1''
       = [test_measurement ''t1'' 300 100, test_measurement ''t1'' 50 50]
   \<and> GetTank world_backdated ''t1'' = Inr ((test_tank ''t1'' 300 10)\<lparr>LastUpdated := 100\<rparr>)
   \<and> CurrentLevel ((test_tank ''t1'' 300 10)\<lparr>LastUpdated := 100\<rparr>) = Finite 300
   \<and> three_tier ((test_tank ''t1'' 300 10)\<lparr>LastUpdated := 100\<rparr>)
   \<and> history (measurements (world_created 50)) ''t1'' = []
   \<and> GetTank (world_created 50) ''t1'' = Inr ((test_tank ''t1'' 50 10)\<lparr>LastUpdated := 1\<rparr>)
   \<and> tanks (world_created 50) ''t1'' = Some ((test_tank ''t1'' 50 10)\<lparr>LastUpdated := 1\<rparr>)"
proof -
  let ?stored = "(test_tank ''t1'' 50 10)\<lparr>LastUpdated := 50, Status := ''critical''\<rparr>"
  let ?read = "(test_tank ''t1'' 300 10)\<lparr>LastUpdated := 100\<rparr>"
  have a: "fst (CreateTank 1 (Some (test_tank ''t1'' 50 10)) NewWorld) = None"
    by (simp add: CreateTank_valid test_tank_fields)
  have b: "tanks world_backdated ''t1'' = Some ?stored"
    and c: "history (measurements world_backdated) ''t1''
       = [test_measurement ''t1'' 300 100, test_measurement ''t1'' 50 50]"
    by (simp_all add: world_backdated_eq history_def)
  have d: "GetTank world_backdated ''t1'' = Inr ?read"
    unfolding world_backdated_eq
    by (simp add: GetTank_def repo_GetTank_def GetLastMeasurement_def project_test_tank
        UpdateStatus_300)
  have e: "history (measurements (world_created 50)) ''t1'' = []"
    by (simp add: world_created_eq history_def)
  have f: "GetTank (world_created 50) ''t1'' = Inr ((test_tank ''t1'' 50 10)\<lparr>LastUpdated := 1\<rparr>)"
    by (simp add: world_created_eq GetTank_def repo_GetTank_def GetLastMeasurement_def)
  from status_after_CreateTank_and_GetTank
    [of 1 "test_tank ''t1'' 50 10" NewWorld world_backdated "''t1''" ?read ?stored
        "test_measurement ''t1'' 300 100" "[test_measurement ''t1'' 50 50]"] b c d
  have g: "CurrentLevel ?read = Level (test_measurement ''t1'' 300 100) \<and> three_tier ?read"
    by blast
  from status_after_CreateTank_and_GetTank
    [of 1 "test_tank ''t1'' 50 10" NewWorld "world_created 50" "''t1''"
        "(test_tank ''t1'' 50 10)\<lparr>LastUpdated := 1\<rparr>"] e f
  have h: "tanks (world_created 50) ''t1'' = Some ((test_tank ''t1'' 50 10)\<lparr>LastUpdated := 1\<rparr>)"
    by blast
  from g have i: "CurrentLevel ?read = Finite 300"
    by (simp add: test_measurement_fields)
  from a b c d e f g h i show ?thesis by blast
qed

text \<open>
  A tank created at 5 percent with threshold 10 and never measured: CreateTank succeeds,
  GetTank returns it with status normal, and the three-tier rule would make it critical.
\<close>

theorem GetTank_stale_status_counterexample:
  "fst (CreateTank 1 (Some (test_tank ''t1'' 50 10)) NewWorld) = None
   \<and> GetTank (world_created 50) ''t1'' = Inr ((test_tank ''t1'' 50 10)\<lparr>LastUpdated := 1\<rparr>)
   \<and> Status ((test_tank ''t1'' 50 10)\<lparr>LastUpdated := 1\<rparr>) = ''normal''
   \<and> GetLevelPercentage ((test_tank ''t1'' 50 10)\<lparr>LastUpdated := 1\<rparr>) = Finite 5
   \<and> AlertThreshold ((test_tank ''t1'' 50 10)\<lparr>LastUpdated := 1\<rparr>) = Finite 10
   \<and> fle (Finite 5) (Finite 10)
   \<and> \<not> three_tier ((test_tank ''t1'' 50 10)\<lparr>LastUpdated := 1\<rparr>)"
proof -
  have a: "fst (CreateTank 1 (Some (test_tank ''t1'' 50 10)) NewWorld) = None"
    by (simp add: CreateTank_valid test_tank_fields)
  have f: "GetTank (world_created 50) ''t1'' = Inr ((test_tank ''t1'' 50 10)\<lparr>LastUpdated := 1\<rparr>)"
    by (simp add: world_created_eq GetTank_def repo_GetTank_def GetLastMeasurement_def)
  have g: "GetLevelPercentage ((test_tank ''t1'' 50 10)\<lparr>LastUpdated := 1\<rparr>) = Finite 5"
    by (simp add: pct_test_tank pct_evals)
  have s: "Status ((test_tank ''t1'' 50 10)\<lparr>LastUpdated := 1\<rparr>) = ''normal''"
    and th: "AlertThreshold ((test_tank ''t1'' 50 10)\<lparr>LastUpdated := 1\<rparr>) = Finite 10"
    by (simp_all add: test_tank_fields)
  have "\<not> three_tier ((test_tank ''t1'' 50 10)\<lparr>LastUpdated := 1\<rparr>)"
    unfolding three_tier_def g s th by simp
  with a f g s th show ?thesis by simp
qed

text \<open>
  Claim C4, amended. GetTank fails with the invalid-tank error when the ID is the empty
  string, and with a not-found error when the ID is not empty and no tank is stored under
  it; it fails in no other case.
\<close>

theorem GetTank_errors:
  "GetTank w [] = Inl ErrInvalidTank
   \<and> InvalidTank ErrInvalidTank \<and> \<not> NotFound ErrInvalidTank
   \<and> (id' \<noteq> [] \<and> tanks w id' = None \<longrightarrow> GetTank w id' = Inl RepoErrTankNotFound)
   \<and> NotFound RepoErrTankNotFound
   \<and> ((\<exists>e. GetTank w id' = Inl e) = (id' = [] \<or> tanks w id' = None))"
  by (auto simp: GetTank_def repo_GetTank_def InvalidTank_def NotFound_def
      split: option.splits sum.splits list.splits)

theorem GetTank_errors_witness:
  "GetTank NewWorld [] = Inl ErrInvalidTank
   \<and> ''t1'' \<noteq> [] \<and> tanks NewWorld ''t1'' = None
   \<and> GetTank NewWorld ''t1'' = Inl RepoErrTankNotFound"
  using GetTank_errors [of NewWorld "''t1''"]
  by (simp add: NewWorld_def NewMemoryTankRepository_def)

text \<open>For the empty ID the error returned is the invalid-tank error, which is not a
  not-found error.\<close>

theorem GetTank_empty_id_counterexample:
  "GetTank NewWorld [] = Inl ErrInvalidTank \<and> \<not> NotFound ErrInvalidTank"
  by (simp add: GetTank_def NotFound_def)

text \<open>
  Claim C5. CreateTank fails with the invalid-tank error exactly when the tank is nil, its
  name is empty or its capacity is not positive, and then writes nothing. On every other
  input it stores the tank under its ID with status normal, with a threshold of 10 in
  place of a threshold that is not positive, and with last_updated set to the current time.
\<close>

theorem CreateTank_validation:
  "(fst (CreateTank now tank w) = Some ErrInvalidTank)
     = (case tank of None \<Rightarrow> True
        | Some t \<Rightarrow> Name t = [] \<or> fle (Capacity t) (Finite 0))
   \<and> InvalidTank ErrInvalidTank
   \<and> (fst (CreateTank now tank w) \<noteq> None \<longrightarrow>
        fst (CreateTank now tank w) = Some ErrInvalidTank \<and> snd (CreateTank now tank w) = w)
   \<and> (tank = Some t \<and> Name t \<noteq> [] \<and> \<not> fle (Capacity t) (Finite 0) \<longrightarrow>
        CreateTank now tank w =
          (None, w\<lparr>tanks := (tanks w)(ID t \<mapsto>
             t\<lparr>Status := ''normal'',
               AlertThreshold := (if fle (AlertThreshold t) (Finite 0) then Finite 10
                                  else AlertThreshold t),
               LastUpdated := now\<rparr>)\<rparr>))"
  by (cases tank) (auto simp: CreateTank_def repo_SaveTank_def Let_def IsZero_def InvalidTank_def)

theorem CreateTank_validation_witness:
  "Name (test_tank ''t1'' 500 0) \<noteq> [] \<and> \<not> fle (Capacity (test_tank ''t1'' 500 0)) (Finite 0)
   \<and> CreateTank 7 (Some (test_tank ''t1'' 500 0)) NewWorld =
     (None, NewWorld\<lparr>tanks := (tanks NewWorld)(''t1'' \<mapsto>
        (test_tank ''t1'' 500 0)\<lparr>Status := ''normal'', AlertThreshold := Finite 10,
                                 LastUpdated := 7\<rparr>)\<rparr>)"
proof -
  have h: "Some (test_tank ''t1'' 500 0) = Some (test_tank ''t1'' 500 0)
      \<and> Name (test_tank ''t1'' 500 0) \<noteq> []
      \<and> \<not> fle (Capacity (test_tank ''t1'' 500 0)) (Finite 0)"
    by (simp add: test_tank_def)
  have "CreateTank 7 (Some (test_tank ''t1'' 500 0)) NewWorld =
          (None, NewWorld\<lparr>tanks := (tanks NewWorld)(ID (test_tank ''t1'' 500 0) \<mapsto>
             (test_tank ''t1'' 500 0)\<lparr>Status := ''normal'',
               AlertThreshold := (if fle (AlertThreshold (test_tank ''t1'' 500 0)) (Finite 0)
                                  then Finite 10
                                  else AlertThreshold (test_tank ''t1'' 500 0)),
               LastUpdated := 7\<rparr>)\<rparr>)"
    using CreateTank_validation [of 7 "Some (test_tank ''t1'' 500 0)" NewWorld
        "test_tank ''t1'' 500 0"] h by blast
  moreover have "ID (test_tank ''t1'' 500 0) = ''t1''"
    and "AlertThreshold (test_tank ''t1'' 500 0) = Finite 0"
    by (simp_all add: test_tank_def)
  ultimately show ?thesis using h by simp
qed

section \<open>Service: measurements\<close>

text \<open>
  Claim C6. For every measurement with a negative level, AddMeasurement fails with the
  invalid-measurement error and leaves the world as it was: neither repository is written
  and no alert is sent.
\<close>

theorem AddMeasurement_negative_level:
  "flt (Level m) (Finite 0) \<Longrightarrow>
   AddMeasurement env now (Some m) w = (Some ErrInvalidMeasurementData, w)
   \<and> InvalidInput ErrInvalidMeasurementData"
  by (simp add: AddMeasurement_def InvalidInput_def)

theorem AddMeasurement_negative_level_witness:
  "flt (Level (test_measurement ''t1'' (-5) 3)) (Finite 0)
   \<and> AddMeasurement env_ok 9 (Some (test_measurement ''t1'' (-5) 3)) (world_created 500)
      = (Some ErrInvalidMeasurementData, world_created 500)"
  using AddMeasurement_negative_level
    [of "test_measurement ''t1'' (-5) 3" env_ok 9 "world_created 500"]
  by (simp add: test_measurement_def)

text \<open>
  Claim C2, amended. For every measurement whose level is not below 0 and whose tank ID
  is not empty and names a stored tank (stored under its own ID, as the service stores
  every tank), and for a sort that does what the library promises, AddMeasurement first
  stores the measurement and the tank's new snapshot (whose current level is the
  measurement's level and whose status follows the three-tier rule) and then runs
  MonitorTank on that world. The notifier is called exactly once if the stored tank with
  the level of the first measurement of the sorted history, one with the latest time
  stamp among the stored measurements and the new one, has a fill percentage at most the
  threshold, and not at all otherwise. When the new measurement is strictly later than
  every measurement already stored for the tank, that first measurement is the new one,
  and the decision is taken on the new level.
\<close>

theorem AddMeasurement_alert_on_latest:
  assumes "TankID m \<noteq> []" and "\<not> flt (Level m) (Finite 0)"
    and "tanks w (TankID m) = Some tank" and "ID tank = TankID m"
    and "sort_Slice_contract (sort_Slice env)"
  shows "AddMeasurement env now (Some m) w =
           MonitorTank env (after_writes env now m tank w) (TankID m)
   \<and> mset (history (measurements (snd (AddMeasurement env now (Some m) w))) (TankID m))
       = mset (history (measurements w) (TankID m)) + {#stamped now m#}
   \<and> tanks (snd (AddMeasurement env now (Some m) w)) (TankID m)
       = Some (project tank (stamped now m))
   \<and> CurrentLevel (project tank (stamped now m)) = Level m
   \<and> three_tier (project tank (stamped now m))
   \<and> (\<exists>latest rest.
         history (measurements (snd (AddMeasurement env now (Some m) w))) (TankID m)
           = latest # rest
         \<and> latest \<in> set (history (measurements w) (TankID m) @ [stamped now m])
         \<and> (\<forall>x \<in> set (history (measurements w) (TankID m) @ [stamped now m]).
               Timestamp x \<le> Timestamp latest)
         \<and> alerts (snd (AddMeasurement env now (Some m) w)) =
             (if fle (GetLevelPercentage (tank\<lparr>CurrentLevel := Level latest\<rparr>))
                     (AlertThreshold tank)
              then alerts w @ [(TankID m, alert_message env (project tank latest))]
              else alerts w)
         \<and> ((\<forall>x \<in> set (history (measurements w) (TankID m)).
                 Timestamp x < Timestamp (stamped now m))
              \<longrightarrow> latest = stamped now m \<and> Level latest = Level m))"
proof -
  let ?aw = "after_writes env now m tank w"
  let ?old = "history (measurements w) (TankID m)"
  let ?s = "sort_Slice env later (?old @ [stamped now m])"
  have unfold: "AddMeasurement env now (Some m) w = MonitorTank env ?aw (TankID m)"
    using assms(1-4) by (rule AddMeasurement_unfold)
  from latest_first [OF assms(5), of ?old "stamped now m"]
  obtain latest rest where s: "?s = latest # rest"
    and mem: "latest \<in> set (?old @ [stamped now m])"
    and le: "\<forall>x \<in> set (?old @ [stamped now m]). Timestamp x \<le> Timestamp latest"
    by blast
  have g: "GetTank ?aw (TankID m) = Inr (project tank latest)"
    using assms(1) s by (rule GetTank_after_writes)
  have hist: "history (measurements (snd (MonitorTank env ?aw (TankID m)))) (TankID m) = ?s"
    by (simp add: MonitorTank_repositories after_writes_fields)
  have persisted: "mset (history (measurements (snd (MonitorTank env ?aw (TankID m))))
                     (TankID m)) = mset ?old + {#stamped now m#}"
    unfolding hist using contract_mset [OF assms(5), of "?old @ [stamped now m]"] by simp
  have snapshot: "tanks (snd (MonitorTank env ?aw (TankID m))) (TankID m)
      = Some (project tank (stamped now m))"
    by (simp add: MonitorTank_repositories after_writes_fields)
  have pct: "GetLevelPercentage (project tank latest)
      = GetLevelPercentage (tank\<lparr>CurrentLevel := Level latest\<rparr>)"
    by (simp add: project_def UpdateStatus_eq GetLevelPercentage_def GetLevelPercentage_div_def)
  have al: "alerts (snd (MonitorTank env ?aw (TankID m))) =
      (if fle (GetLevelPercentage (tank\<lparr>CurrentLevel := Level latest\<rparr>)) (AlertThreshold tank)
       then alerts w @ [(TankID m, alert_message env (project tank latest))] else alerts w)"
    by (simp add: MonitorTank_alerts [OF g] IsLevelCritical_def after_writes_fields
        project_fields pct)
  have newest: "latest = stamped now m \<and> Level latest = Level m"
    if "\<forall>x \<in> set ?old. Timestamp x < Timestamp (stamped now m)"
    using newest_first [OF assms(5) that s] by (simp add: Level_stamped)
  have lvl: "CurrentLevel (project tank (stamped now m)) = Level m"
    by (simp add: project_fields Level_stamped)
  have tier: "three_tier (project tank (stamped now m))" by (rule three_tier_project)
  from hist s have hd: "history (measurements (snd (MonitorTank env ?aw (TankID m)))) (TankID m)
      = latest # rest" by simp
  show ?thesis
    unfolding unfold
    using persisted snapshot lvl tier hd mem le al newest by blast
qed

theorem AddMeasurement_alert_on_latest_witness:
  "TankID (test_measurement ''t1'' 50 150) \<noteq> []
   \<and> \<not> flt (Level (test_measurement ''t1'' 50 150)) (Finite 0)
   \<and> tanks world_measured ''t1'' = Some ((test_tank ''t1'' 300 10)\<lparr>LastUpdated := 100\<rparr>)
   \<and> ID ((test_tank ''t1'' 300 10)\<lparr>LastUpdated := 100\<rparr>) = ''t1''
   \<and> sort_Slice_contract (sort_Slice env_ok)
   \<and> history (measurements world_measured) ''t1'' = [test_measurement ''t1'' 300 100]
   \<and> Timestamp (test_measurement ''t1'' 300 100) < Timestamp (test_measurement ''t1'' 50 150)
   \<and> alerts world_measured = []
   \<and> alerts (snd (AddMeasurement env_ok 200 (Some (test_measurement ''t1'' 50 150))
                     world_measured))
       = [(''t1'', alert_message env_ok
            ((test_tank ''t1'' 50 10)\<lparr>LastUpdated := 150, Status := ''critical''\<rparr>))]"
proof -
  let ?m = "test_measurement ''t1'' 50 150"
  let ?tank = "(test_tank ''t1'' 300 10)\<lparr>LastUpdated := 100\<rparr>"
  let ?w = "world_measured"
  have st: "stamped 200 ?m = ?m"
    by (simp add: stamped_def IsZero_def test_measurement_fields)
  have h1: "TankID ?m \<noteq> []" and h2: "\<not> flt (Level ?m) (Finite 0)"
    by (simp_all add: test_measurement_fields)
  have h3: "tanks ?w (TankID ?m) = Some ?tank"
    by (simp add: world_measured_eq test_measurement_fields)
  have h4: "ID ?tank = TankID ?m"
    by (simp add: test_tank_fields test_measurement_fields)
  have h5: "sort_Slice_contract (sort_Slice env_ok)" by (rule env_ok_contract)
  have h6: "history (measurements ?w) (TankID ?m) = [test_measurement ''t1'' 300 100]"
    by (simp add: world_measured_eq history_def test_measurement_fields)
  have h7: "Timestamp (test_measurement ''t1'' 300 100) < Timestamp ?m"
    by (simp add: test_measurement_fields)
  from AddMeasurement_alert_on_latest [OF h1 h2 h3 h4 h5, of 200]
  obtain latest where
    al: "alerts (snd (AddMeasurement env_ok 200 (Some ?m) ?w)) =
             (if fle (GetLevelPercentage (?tank\<lparr>CurrentLevel := Level latest\<rparr>))
                     (AlertThreshold ?tank)
              then alerts ?w @ [(TankID ?m, alert_message env_ok (project ?tank latest))]
              else alerts ?w)"
    and nw: "(\<forall>x \<in> set (history (measurements ?w) (TankID ?m)).
                 Timestamp x < Timestamp (stamped 200 ?m))
              \<longrightarrow> latest = stamped 200 ?m \<and> Level latest = Level ?m"
    by blast
  from nw h6 h7 st have l: "latest = ?m" by simp
  have p: "GetLevelPercentage (?tank\<lparr>CurrentLevel := Level ?m\<rparr>) = Finite 5"
    by (simp add: GetLevelPercentage_def GetLevelPercentage_div_def test_tank_def
        test_measurement_def pct_evals)
  have pr: "project ?tank ?m = (test_tank ''t1'' 50 10)\<lparr>LastUpdated := 150, Status := ''critical''\<rparr>"
    by (simp add: project_test_tank UpdateStatus_50)
  have th: "AlertThreshold ?tank = Finite 10" and a0: "alerts ?w = []"
    by (simp_all add: test_tank_fields world_measured_eq)
  from al have "alerts (snd (AddMeasurement env_ok 200 (Some ?m) ?w))
      = [(''t1'', alert_message env_ok
            ((test_tank ''t1'' 50 10)\<lparr>LastUpdated := 150, Status := ''critical''\<rparr>))]"
    unfolding l p pr th a0 by (simp add: test_measurement_fields)
  with h1 h2 h3 h4 h5 h6 h7 a0 show ?thesis by (simp add: test_measurement_fields)
qed

text \<open>
  A measurement of level 50 stamped 50, added after a measurement of level 300 stamped 100:
  the new fill percentage is 5, at most the threshold 10, the stored snapshot becomes
  critical, and no alert is sent, because MonitorTank reads the tank projected from the
  measurement stamped 100.
\<close>

theorem AddMeasurement_backdated_counterexample:
  "TankID (test_measurement ''t1'' 50 50) \<noteq> []
   \<and> fle (Finite 0) (Level (test_measurement ''t1'' 50 50))
   \<and> tanks world_measured ''t1'' = Some ((test_tank ''t1'' 300 10)\<lparr>LastUpdated := 100\<rparr>)
   \<and> GetLevelPercentage ((test_tank ''t1'' 300 10)
         \<lparr>CurrentLevel := Level (test_measurement ''t1'' 50 50)\<rparr>) = Finite 5
   \<and> AlertThreshold (test_tank ''t1'' 300 10) = Finite 10
   \<and> fle (Finite 5) (Finite 10)
   \<and> alerts world_measured = []
   \<and> AddMeasurement env_ok 200 (Some (test_measurement ''t1'' 50 50)) world_measured =
       (None,
        \<lparr>tanks = [''t1'' \<mapsto> (test_tank ''t1'' 50 10)\<lparr>LastUpdated := 50, Status := ''critical''\<rparr>],
         measurements = [''t1'' \<mapsto> [test_measurement ''t1'' 300 100,
                                      test_measurement ''t1'' 50 50]],
         alerts = []\<rparr>)"
proof -
  let ?m = "test_measurement ''t1'' 50 50"
  let ?tank = "(test_tank ''t1'' 300 10)\<lparr>LastUpdated := 100\<rparr>"
  have h1: "TankID ?m \<noteq> []" and h2: "\<not> flt (Level ?m) (Finite 0)"
    and h2': "fle (Finite 0) (Level ?m)"
    by (simp_all add: test_measurement_fields)
  have h3: "tanks world_measured (TankID ?m) = Some ?tank"
    by (simp add: world_measured_eq test_measurement_fields)
  have h4: "ID ?tank = TankID ?m"
    by (simp add: test_tank_fields test_measurement_fields)
  have "AddMeasurement env_ok 200 (Some ?m) world_measured =
          MonitorTank env_ok (after_writes env_ok 200 ?m ?tank world_measured) (TankID ?m)"
    using h1 h2 h3 h4 by (rule AddMeasurement_unfold)
  also have "\<dots> = (None, after_writes env_ok 200 ?m ?tank world_measured)"
    using GetTank_after_writes_measured
    by (simp add: MonitorTank_def test_measurement_fields IsLevelCritical_def
        pct_test_tank pct_evals)
  finally have r: "AddMeasurement env_ok 200 (Some ?m) world_measured =
      (None, after_writes env_ok 200 ?m ?tank world_measured)" .
  have p: "GetLevelPercentage ((test_tank ''t1'' 300 10)\<lparr>CurrentLevel := Level ?m\<rparr>) = Finite 5"
    by (simp add: GetLevelPercentage_def GetLevelPercentage_div_def test_tank_def
        test_measurement_def pct_evals)
  have a: "alerts world_measured = []" by (simp add: world_measured_eq)
  from h1 h2' h3 p a r show ?thesis
    by (simp add: after_writes_measured test_measurement_fields test_tank_fields)
qed

text \<open>
  Claim C10. If AddMeasurement reaches the notifier (its input is valid, the tank is stored
  under its own ID, the sort does what the library promises, and the tank as MonitorTank
  reads it is critical) and SendAlert returns an error, AddMeasurement returns that error,
  and the world it leaves still holds the measurement in the tank's history and the
  tank's new snapshot: level, temperature and last_updated taken from the measurement,
  status following the three-tier rule.
\<close>

theorem AddMeasurement_notifier_failure:
  assumes "TankID m \<noteq> []" and "\<not> flt (Level m) (Finite 0)"
    and "tanks w (TankID m) = Some tank" and "ID tank = TankID m"
    and "sort_Slice_contract (sort_Slice env)"
    and "GetTank (after_writes env now m tank w) (TankID m) = Inr pt"
    and "IsLevelCritical pt"
    and "SendAlert env (alerts w) (TankID m) (alert_message env pt) = Some e"
  shows "fst (AddMeasurement env now (Some m) w) = Some e
   \<and> stamped now m \<in> set (history (measurements (snd (AddMeasurement env now (Some m) w)))
                             (TankID m))
   \<and> tanks (snd (AddMeasurement env now (Some m) w)) (TankID m)
       = Some (project tank (stamped now m))
   \<and> CurrentLevel (project tank (stamped now m)) = Level m
   \<and> Temperature (project tank (stamped now m)) = MeasurementTemperature m
   \<and> LastUpdated (project tank (stamped now m)) = Timestamp (stamped now m)
   \<and> three_tier (project tank (stamped now m))"
proof -
  let ?aw = "after_writes env now m tank w"
  have unfold: "AddMeasurement env now (Some m) w = MonitorTank env ?aw (TankID m)"
    using assms(1-4) by (rule AddMeasurement_unfold)
  have "fst (MonitorTank env ?aw (TankID m)) = Some e"
    using assms(7,8) by (simp add: MonitorTank_alerts [OF assms(6)] after_writes_fields)
  moreover have "Temperature (project tank (stamped now m)) = MeasurementTemperature m"
    by (simp add: project_fields stamped_def)
  ultimately show ?thesis
    unfolding unfold
    by (simp add: MonitorTank_repositories after_writes_fields contract_set [OF assms(5)]
        project_fields Level_stamped three_tier_project)
qed

theorem AddMeasurement_notifier_failure_witness:
  "TankID (test_measurement ''t1'' 50 100) \<noteq> []
   \<and> \<not> flt (Level (test_measurement ''t1'' 50 100)) (Finite 0)
   \<and> tanks (world_created 500) ''t1'' = Some ((test_tank ''t1'' 500 10)\<lparr>LastUpdated := 1\<rparr>)
   \<and> sort_Slice_contract (sort_Slice env_down)
   \<and> IsLevelCritical ((test_tank ''t1'' 50 10)\<lparr>LastUpdated := 100, Status := ''critical''\<rparr>)
   \<and> fst (AddMeasurement env_down 9 (Some (test_measurement ''t1'' 50 100))
             (world_created 500)) = Some (NotifierError ''notifier down'')
   \<and> test_measurement ''t1'' 50 100
       \<in> set (history (measurements (snd (AddMeasurement env_down 9
                 (Some (test_measurement ''t1'' 50 100)) (world_created 500)))) ''t1'')
   \<and> tanks (snd (AddMeasurement env_down 9 (Some (test_measurement ''t1'' 50 100))
                    (world_created 500))) ''t1''
       = Some ((test_tank ''t1'' 50 10)\<lparr>LastUpdated := 100, Status := ''critical''\<rparr>)"
proof -
  let ?m = "test_measurement ''t1'' 50 100"
  let ?tank = "(test_tank ''t1'' 500 10)\<lparr>LastUpdated := 1\<rparr>"
  let ?pt = "(test_tank ''t1'' 50 10)\<lparr>LastUpdated := 100, Status := ''critical''\<rparr>"
  have h1: "TankID ?m \<noteq> []" and h2: "\<not> flt (Level ?m) (Finite 0)"
    by (simp_all add: test_measurement_fields)
  have h3: "tanks (world_created 500) (TankID ?m) = Some ?tank"
    by (simp add: world_created_eq test_measurement_fields)
  have h4: "ID ?tank = TankID ?m"
    by (simp add: test_tank_fields test_measurement_fields)
  have h5: "sort_Slice_contract (sort_Slice env_down)" by (rule env_down_contract)
  have h6: "GetTank (after_writes env_down 9 ?m ?tank (world_created 500)) (TankID ?m) = Inr ?pt"
    unfolding after_writes_down test_measurement_fields
    using GetTank_one_measurement [of 50 "[]"] by (simp add: UpdateStatus_50)
  have h7: "IsLevelCritical ?pt"
    by (simp add: IsLevelCritical_def GetLevelPercentage_def GetLevelPercentage_div_def
        test_tank_def pct_evals)
  have h8: "SendAlert env_down (alerts (world_created 500)) (TankID ?m)
              (alert_message env_down ?pt) = Some (NotifierError ''notifier down'')"
    by (simp add: env_down_def)
  have st: "stamped 9 ?m = ?m"
    by (simp add: stamped_def IsZero_def test_measurement_fields)
  have pr: "project ?tank ?m = ?pt"
    by (simp add: project_test_tank UpdateStatus_50)
  from AddMeasurement_notifier_failure [OF h1 h2 h3 h4 h5 h6 h7 h8] h1 h2 h3 h5 h7
  show ?thesis
    by (simp add: st pr test_measurement_fields)
qed

text \<open>
  Claim C7. DeleteTank fails with the invalid-tank error for the empty ID and with a
  not-found error when no tank is stored under the ID, leaving the world unchanged. It
  succeeds for every other ID, and then removes that tank only: the measurement histories
  and the alerts are unchanged, and GetTank of the same ID fails with a not-found error.
\<close>

theorem DeleteTank_frame:
  "DeleteTank [] w = (Some ErrInvalidTank, w)
   \<and> InvalidTank ErrInvalidTank
   \<and> (id' \<noteq> [] \<and> tanks w id' = None \<longrightarrow>
        DeleteTank id' w = (Some RepoErrTankNotFound, w) \<and> NotFound RepoErrTankNotFound)
   \<and> (id' \<noteq> [] \<and> tanks w id' \<noteq> None \<longrightarrow> fst (DeleteTank id' w) = None)
   \<and> (fst (DeleteTank id' w) = None \<longrightarrow>
        tanks (snd (DeleteTank id' w)) = (tanks w)(id' := None)
        \<and> measurements (snd (DeleteTank id' w)) = measurements w
        \<and> alerts (snd (DeleteTank id' w)) = alerts w
        \<and> GetTank (snd (DeleteTank id' w)) id' = Inl RepoErrTankNotFound)"
  by (auto simp: DeleteTank_def repo_GetTank_def repo_DeleteTank_def GetTank_def
      InvalidTank_def NotFound_def split: option.splits)

theorem DeleteTank_frame_witness:
  "''t1'' \<noteq> [] \<and> tanks world_measured ''t1'' \<noteq> None
   \<and> fst (DeleteTank ''t1'' world_measured) = None
   \<and> tanks (snd (DeleteTank ''t1'' world_measured)) ''t1'' = None
   \<and> measurements (snd (DeleteTank ''t1'' world_measured)) ''t1''
       = Some [test_measurement ''t1'' 300 100]
   \<and> GetTank (snd (DeleteTank ''t1'' world_measured)) ''t1'' = Inl RepoErrTankNotFound"
  using DeleteTank_frame [of world_measured "''t1''"]
  by (simp add: world_measured_eq)

section \<open>Measurement history\<close>

text \<open>
  Claim C9, amended. After every sequence of SaveMeasurement calls on a new repository,
  with a sort that does what the library promises, the history kept for a tank ID holds
  exactly the measurements saved for that ID and is ordered most recent first. For a tank
  ID that is not empty, GetMeasurementsByTankID succeeds and returns that history in the
  same order: its first limit entries when limit is positive, and all of it when limit is
  zero or negative. For the empty tank ID it fails with the error "tank ID cannot be
  empty", whatever is stored under that ID.
\<close>

theorem history_most_recent_first:
  assumes "sort_Slice_contract srt"
  shows "most_recent_first (history (save_all srt calls NewMemoryMeasurementRepository) tankID)
   \<and> mset (history (save_all srt calls NewMemoryMeasurementRepository) tankID)
       = mset (saved_for tankID calls)
   \<and> (tankID \<noteq> [] \<longrightarrow>
        GetMeasurementsByTankID (save_all srt calls NewMemoryMeasurementRepository) tankID limit
          = Inr (if 0 < limit
                 then take (nat limit)
                        (history (save_all srt calls NewMemoryMeasurementRepository) tankID)
                 else history (save_all srt calls NewMemoryMeasurementRepository) tankID))
   \<and> (0 < limit \<longrightarrow>
        int (length (take (nat limit)
               (history (save_all srt calls NewMemoryMeasurementRepository) tankID))) \<le> limit)
   \<and> most_recent_first
        (take (nat limit) (history (save_all srt calls NewMemoryMeasurementRepository) tankID))
   \<and> GetMeasurementsByTankID (save_all srt calls NewMemoryMeasurementRepository) [] limit
       = Inl ErrTankIDEmpty"
proof -
  let ?r = "save_all srt calls NewMemoryMeasurementRepository"
  have "most_recent_first (history NewMemoryMeasurementRepository tankID)"
    by (simp add: history_New most_recent_first_def)
  then have sorted: "most_recent_first (history ?r tankID)"
    by (rule save_all_sorted [OF assms])
  have content: "mset (history ?r tankID) = mset (saved_for tankID calls)"
    using save_all_mset [OF assms, of calls NewMemoryMeasurementRepository tankID]
    by (simp add: history_New)
  have get: "GetMeasurementsByTankID ?r tankID limit
          = Inr (if 0 < limit then take (nat limit) (history ?r tankID)
                 else history ?r tankID)" if "tankID \<noteq> []"
    using that by (cases "?r tankID") (auto simp: GetMeasurementsByTankID_def history_def)
  have len: "int (length (take (nat limit) (history ?r tankID))) \<le> limit" if "0 < limit"
    using that by simp
  have empty: "GetMeasurementsByTankID ?r [] limit = Inl ErrTankIDEmpty"
    by (simp add: GetMeasurementsByTankID_def)
  from sorted content get len empty most_recent_first_take [OF sorted, of "nat limit"]
  show ?thesis by blast
qed

theorem history_most_recent_first_witness:
  "sort_Slice_contract insertionSortLessFunc
   \<and> ''t1'' \<noteq> []
   \<and> history (save_all insertionSortLessFunc three_calls NewMemoryMeasurementRepository) ''t1''
       = [test_measurement ''t1'' 100 30, test_measurement ''t1'' 200 20,
          test_measurement ''t1'' 300 10]
   \<and> saved_for ''t1'' three_calls
       = [test_measurement ''t1'' 300 10, test_measurement ''t1'' 100 30,
          test_measurement ''t1'' 200 20]
   \<and> GetMeasurementsByTankID
        (save_all insertionSortLessFunc three_calls NewMemoryMeasurementRepository) ''t1'' 2
       = Inr [test_measurement ''t1'' 100 30, test_measurement ''t1'' 200 20]
   \<and> most_recent_first [test_measurement ''t1'' 100 30, test_measurement ''t1'' 200 20]"
proof -
  let ?r = "save_all insertionSortLessFunc three_calls NewMemoryMeasurementRepository"
  have r: "history ?r ''t1''
     = [test_measurement ''t1'' 100 30, test_measurement ''t1'' 200 20,
        test_measurement ''t1'' 300 10]"
    by (simp add: three_calls_def SaveMeasurement_def NewMemoryMeasurementRepository_def
        history_def test_measurement_def IsZero_def later_def After_def
        insertionSortLessFunc_def Let_def)
  have s: "saved_for ''t1'' three_calls
       = [test_measurement ''t1'' 300 10, test_measurement ''t1'' 100 30,
          test_measurement ''t1'' 200 20]"
    by (simp add: three_calls_def stamped_def IsZero_def test_measurement_def)
  from history_most_recent_first [OF insertionSortLessFunc_contract, of three_calls "''t1''" 2]
  have "GetMeasurementsByTankID ?r ''t1'' 2 = Inr (take (nat 2) (history ?r ''t1''))"
    and "most_recent_first (take (nat 2) (history ?r ''t1''))"
    by simp_all
  then have "GetMeasurementsByTankID ?r ''t1'' 2
       = Inr [test_measurement ''t1'' 100 30, test_measurement ''t1'' 200 20]"
    and "most_recent_first [test_measurement ''t1'' 100 30, test_measurement ''t1'' 200 20]"
    unfolding r by simp_all
  with r s insertionSortLessFunc_contract show ?thesis by simp
qed

text \<open>
  One measurement saved under the empty tank ID: the repository keeps it in the history of
  that ID, and GetMeasurementsByTankID of that ID returns an error, not the history.
\<close>

theorem GetMeasurementsByTankID_empty_id_counterexample:
  "history (save_all insertionSortLessFunc [(1, Some (test_measurement [] 300 10))]
              NewMemoryMeasurementRepository) []
     = [test_measurement [] 300 10]
   \<and> GetMeasurementsByTankID
        (save_all insertionSortLessFunc [(1, Some (test_measurement [] 300 10))]
           NewMemoryMeasurementRepository) [] 0
       = Inl ErrTankIDEmpty"
  by (simp add: SaveMeasurement_def NewMemoryMeasurementRepository_def history_def
      test_measurement_def IsZero_def insertionSortLessFunc_def Let_def
      GetMeasurementsByTankID_def)

end
